theory Spec2Isabelle
  imports Complex_Main
begin

section \<open>Values shared by the whole development\<close>

text \<open>
  The program is Python 2 on top of torch (\<open>examples/cartpole.py\<close> uses the print
  statement). Floating-point tensors are modelled over the reals; every exception the
  modelled code can raise is a value of \<open>error\<close>, and a fallible function returns
  \<open>error + 'a\<close> with \<open>Inl\<close> for the exception.

  A two-dimensional tensor (a batch of particles, a noise pool, a dataset) is the list of
  its rows. The row-list form does not record the width of a batch that has no rows.
\<close>

datatype error = RuntimeError | IndexError | ValueError | AttributeError | NonFinite

text \<open>
  \<open>NonFinite\<close> is not an exception: it marks a float computation whose result is
  \<open>nan\<close> or \<open>inf\<close> (a division by zero, the mean of no elements), where the
  real-valued model stops.
\<close>

type_synonym matrix = "real list list"

definition width :: "matrix \<Rightarrow> nat" where
  "width X = (case X of [] \<Rightarrow> 0 | r # _ \<Rightarrow> length r)"

definition shape_of :: "matrix \<Rightarrow> nat list" where
  "shape_of X = [length X, width X]"

definition rect :: "nat \<Rightarrow> matrix \<Rightarrow> bool" where
  "rect n X = list_all (\<lambda>r. length r = n) X"

definition ebind :: "error + 'a \<Rightarrow> ('a \<Rightarrow> error + 'b) \<Rightarrow> error + 'b" where
  "ebind m f = (case m of Inl e \<Rightarrow> Inl e | Inr v \<Rightarrow> f v)"

section \<open>algorithms/mc\_pilco.py: fetching noise\<close>

text \<open>
  \<^verbatim>\<open>idxs = torch.range(i, i+shape[0]-1).to(device).long()\<close>: the integers
  \<open>i, i+1, \<dots>, i+shape[0]-1\<close>, both ends included. torch refuses an upper bound
  below the lower one, which happens exactly when \<open>shape[0] = 0\<close>.
\<close>

definition torch_range :: "nat \<Rightarrow> nat \<Rightarrow> error + nat list" where
  "torch_range i n = (if n = 0 then Inl RuntimeError else Inr (map (\<lambda>k. i + k) [0..<n]))"

text \<open>\<^verbatim>\<open>z[idxs]\<close>: the rows of \<open>z\<close> at the given indices; an index past the end raises.\<close>

definition index_rows :: "'a list \<Rightarrow> nat list \<Rightarrow> error + 'a list" where
  "index_rows z idxs =
     (if list_all (\<lambda>j. j < length z) idxs then Inr (map (\<lambda>j. z ! j) idxs)
      else Inl IndexError)"

text \<open>
  \<open>get_z_rnd z i shape\<close>. With a pool, the indices are reduced modulo \<open>shape[0]\<close>
  (\<^verbatim>\<open>idxs %= shape[0]\<close>) and the pool is read there; without one, \<open>torch.randn\<close>
  draws a fresh batch. The sampler is the parameter \<open>randn\<close>, acting on a state
  \<open>'s\<close> that stands for whatever the random number generator holds.
\<close>

definition get_z_rnd ::
  "(nat list \<Rightarrow> 's \<Rightarrow> matrix \<times> 's) \<Rightarrow> matrix option \<Rightarrow> nat \<Rightarrow> nat list \<Rightarrow> 's
     \<Rightarrow> (error + matrix) \<times> 's" where
  "get_z_rnd randn z i shp g =
     (case z of
        Some pool \<Rightarrow>
          (case shp of
             [] \<Rightarrow> (Inl IndexError, g)
           | n # _ \<Rightarrow>
               (case torch_range i n of
                  Inl e \<Rightarrow> (Inl e, g)
                | Inr idxs \<Rightarrow> (index_rows pool (map (\<lambda>j. j mod n) idxs), g)))
      | None \<Rightarrow> (case randn shp g of (t, g') \<Rightarrow> (Inr t, g')))"

text \<open>
  The reading of the specification: the rows fetched for step \<open>i\<close> are the pool rows at
  \<open>i, i+1, \<dots>\<close>, reduced modulo the length of the pool.
\<close>

definition cyclic_pool_rows :: "matrix \<Rightarrow> nat \<Rightarrow> nat \<Rightarrow> matrix" where
  "cyclic_pool_rows pool i n = map (\<lambda>k. pool ! ((i + k) mod length pool)) [0..<n]"

section \<open>models/modules.py: DynamicsModel\<close>

subsection \<open>Tensor operations used by the dynamics model\<close>

text \<open>\<^verbatim>\<open>torch.cat([A, B], -1)\<close>: the rows are joined; the batches must have as many rows.\<close>

definition cat_last :: "matrix \<Rightarrow> matrix \<Rightarrow> error + matrix" where
  "cat_last A B = (if length A = length B then Inr (map2 (@) A B) else Inl RuntimeError)"

text \<open>
  \<^verbatim>\<open>A.split(D, -1)\<close>: consecutive chunks of \<open>D\<close> columns, the last one shorter when
  the width is not a multiple of \<open>D\<close>; at least one chunk. A chunk size that is not
  positive is refused.
\<close>

definition split_last :: "nat \<Rightarrow> matrix \<Rightarrow> error + matrix list" where
  "split_last D A =
     (if D = 0 then Inl RuntimeError
      else Inr (map (\<lambda>k. map (\<lambda>r. take D (drop (k * D) r)) A)
                  [0..<max 1 ((width A + D - 1) div D)]))"

text \<open>\<^verbatim>\<open>a, b = chunks\<close>: unpacking into two names needs exactly two values.\<close>

definition unpack2 :: "'a list \<Rightarrow> error + 'a \<times> 'a" where
  "unpack2 cs = (case cs of [a, b] \<Rightarrow> Inr (a, b) | _ \<Rightarrow> Inl ValueError)"

text \<open>
  \<^verbatim>\<open>A + B\<close> on two-dimensional tensors, with torch's broadcasting: along each axis the
  sizes agree or one of them is 1.
\<close>

definition bzip :: "('a \<Rightarrow> 'b \<Rightarrow> error + 'c) \<Rightarrow> 'a list \<Rightarrow> 'b list \<Rightarrow> (error + 'c) list option" where
  "bzip f xs ys =
     (if length xs = length ys then Some (map2 f xs ys)
      else if length xs = 1 then Some (map (f (hd xs)) ys)
      else if length ys = 1 then Some (map (\<lambda>x. f x (hd ys)) xs)
      else None)"

fun collect :: "(error + 'a) list \<Rightarrow> error + 'a list" where
  "collect [] = Inr []"
| "collect (Inl e # _) = Inl e"
| "collect (Inr v # rest) = (case collect rest of Inl e \<Rightarrow> Inl e | Inr vs \<Rightarrow> Inr (v # vs))"

definition badd_row :: "real list \<Rightarrow> real list \<Rightarrow> error + real list" where
  "badd_row r q =
     (case bzip (\<lambda>a b. Inr (a + b)) r q of None \<Rightarrow> Inl RuntimeError | Some vs \<Rightarrow> collect vs)"

definition matrix_add :: "matrix \<Rightarrow> matrix \<Rightarrow> error + matrix" where
  "matrix_add A B =
     (case bzip badd_row A B of None \<Rightarrow> Inl RuntimeError | Some rs \<Rightarrow> collect rs)"

text \<open>
  \<^verbatim>\<open>R.max()\<close> and \<^verbatim>\<open>R.min()\<close> over all the entries of a tensor; torch refuses a
  tensor with no entries.
\<close>

definition tensor_max :: "real list \<Rightarrow> error + real" where
  "tensor_max vs = (case vs of [] \<Rightarrow> Inl RuntimeError | v # rest \<Rightarrow> Inr (fold max rest v))"

definition tensor_min :: "real list \<Rightarrow> error + real" where
  "tensor_min vs = (case vs of [] \<Rightarrow> Inl RuntimeError | v # rest \<Rightarrow> Inr (fold min rest v))"

subsection \<open>set\_dataset\<close>

text \<open>
  The buffers of a \<open>Regressor\<close> and of the \<open>DynamicsModel\<close> that extends it. The six
  normalisation statistics (\<open>mx, Sx, iSx, my, Sy, iSy\<close>) that
  \<open>Regressor.set_dataset\<close> recomputes are functions of \<open>X\<close> and \<open>Y\<close> alone and are
  not kept as fields. \<open>to_complex\<close> lives in \<open>prob_mbrl/utils\<close> and is a parameter (it
  stands for \<^verbatim>\<open>lambda X: to_complex(X, self.angle_dims)\<close>).
\<close>

record Regressor =
  buf_X :: matrix
  buf_Y :: matrix

record DynamicsModel = Regressor +
  maxR :: real
  minR :: real

definition Regressor_set_dataset ::
  "(matrix \<Rightarrow> matrix) \<Rightarrow> matrix \<Rightarrow> matrix \<Rightarrow> 'a Regressor_scheme \<Rightarrow> 'a Regressor_scheme" where
  "Regressor_set_dataset to_complex X Y self = self\<lparr>buf_X := to_complex X, buf_Y := Y\<rparr>"

text \<open>
  \<^verbatim>\<open>D = self.Y.shape[-1] - 1; R = self.Y.index_select(-1, torch.tensor(D))\<close>: the column
  of index \<open>shape[-1] - 1\<close>. With no column at all the index is \<open>-1\<close>, which
  \<open>index_select\<close> refuses.
\<close>

definition index_select_last :: "matrix \<Rightarrow> int \<Rightarrow> error + real list" where
  "index_select_last A D =
     (if 0 \<le> D \<and> D < int (width A) then Inr (map (\<lambda>r. r ! nat D) A) else Inl RuntimeError)"

definition DynamicsModel_set_dataset ::
  "(matrix \<Rightarrow> matrix) \<Rightarrow> matrix \<Rightarrow> matrix \<Rightarrow> DynamicsModel \<Rightarrow> error + DynamicsModel" where
  "DynamicsModel_set_dataset to_complex X Y self =
     (let self1 = Regressor_set_dataset to_complex X Y self;
          D = int (width (buf_Y self1)) - 1
      in ebind (index_select_last (buf_Y self1) D) (\<lambda>R.
         ebind (tensor_max R) (\<lambda>mx.
         ebind (tensor_min R) (\<lambda>mn.
           Inr (self1\<lparr>maxR := mx, minR := mn\<rparr>)))))"

text \<open>
  The reading of the specification: the reward column is the second-to-last column of
  the targets.
\<close>

definition second_to_last_column :: "matrix \<Rightarrow> real list" where
  "second_to_last_column A = map (\<lambda>r. r ! (length r - 2)) A"

subsection \<open>forward\<close>

text \<open>
  \<open>inputs\<close> is a (state, action) pair or one tensor. \<open>Regressor.forward\<close>, which runs
  the network and the output density, is the parameter \<open>regressor_forward\<close>; it acts on
  a state \<open>'s\<close> (masks, random numbers) and returns the parameters of the predictive
  distribution (a tuple) or a tensor of samples.
\<close>

datatype dyn_inputs = AsTuple matrix matrix | AsTensor matrix

datatype 'p net_out = Params 'p | Samples matrix

datatype 'p dyn_out = DistParams 'p | Separate matrix matrix | Joined matrix

definition DynamicsModel_outputs ::
  "(matrix \<Rightarrow> matrix) option \<Rightarrow> dyn_inputs \<Rightarrow> matrix \<Rightarrow> bool \<Rightarrow> bool \<Rightarrow> matrix \<Rightarrow> error + 'p dyn_out" where
  "DynamicsModel_outputs reward_func inputs inputs_cat separate_outputs deltas outs =
     ebind (case inputs of
              AsTuple prev_states actions \<Rightarrow> Inr prev_states
            | AsTensor _ \<Rightarrow>
                ebind (split_last (width outs) inputs_cat) (\<lambda>cs.
                ebind (unpack2 cs) (\<lambda>(prev_states, actions). Inr prev_states)))
       (\<lambda>prev_states.
     ebind (case reward_func of
              Some rf \<Rightarrow> Inr (outs, rf prev_states)
            | None \<Rightarrow>
                (if width outs = 0 then Inl RuntimeError
                 else ebind (split_last (width outs - 1) outs) unpack2))
       (\<lambda>(dstates, rewards).
     ebind (if deltas then Inr dstates else matrix_add prev_states dstates)
       (\<lambda>states.
     if separate_outputs then Inr (Separate states rewards)
     else ebind (cat_last states rewards) (\<lambda>j. Inr (Joined j)))))"

definition input_tensor :: "dyn_inputs \<Rightarrow> error + matrix" where
  "input_tensor inputs =
     (case inputs of
        AsTuple prev_states actions \<Rightarrow> cat_last prev_states actions
      | AsTensor t \<Rightarrow> Inr t)"

definition DynamicsModel_forward ::
  "(matrix \<Rightarrow> 's \<Rightarrow> 'p net_out \<times> 's) \<Rightarrow> (matrix \<Rightarrow> matrix) option
     \<Rightarrow> dyn_inputs \<Rightarrow> bool \<Rightarrow> bool \<Rightarrow> 's \<Rightarrow> (error + 'p dyn_out) \<times> 's" where
  "DynamicsModel_forward regressor_forward reward_func inputs separate_outputs deltas s =
     (case input_tensor inputs of
        Inl e \<Rightarrow> (Inl e, s)
      | Inr inputs_cat \<Rightarrow>
          (case regressor_forward inputs_cat s of
             (Params ps, s') \<Rightarrow> (Inr (DistParams ps), s')
           | (Samples outs, s') \<Rightarrow>
               (DynamicsModel_outputs reward_func inputs inputs_cat separate_outputs deltas outs,
                s')))"

text \<open>
  The state portion of the input: the first element of a pair, or the leading columns of
  a single tensor, as many as the network output has.
\<close>

definition state_portion :: "dyn_inputs \<Rightarrow> matrix \<Rightarrow> matrix" where
  "state_portion inputs outs =
     (case inputs of
        AsTuple prev_states actions \<Rightarrow> prev_states
      | AsTensor t \<Rightarrow> map (take (width outs)) t)"

section \<open>algorithms/mc\_pilco.py: the objective of one iteration\<close>

text \<open>
  \<^verbatim>\<open>X.mean(0)\<close> on a two-dimensional tensor: the mean of every column. The mean of no
  rows is 0/0.
\<close>

definition mean0 :: "matrix \<Rightarrow> error + real list" where
  "mean0 A =
     (if A = [] then Inl NonFinite
      else Inr (map (\<lambda>j. sum_list (map (\<lambda>r. r ! j) A) / real (length A)) [0..<width A]))"

text \<open>
  \<^verbatim>\<open>torch.stack(x)\<close>: the tensors of a non-empty sequence, all of one shape, become
  the slices of a tensor with one more leading axis.
\<close>

definition stack :: "matrix list \<Rightarrow> error + matrix list" where
  "stack ms =
     (case ms of
        [] \<Rightarrow> Inl RuntimeError
      | m # rest \<Rightarrow>
          (if list_all (\<lambda>m'. shape_of m' = shape_of m) rest then Inr ms else Inl RuntimeError))"

text \<open>\<^verbatim>\<open>T.mean(1)\<close> on a three-dimensional tensor: the column means of every slice.\<close>

definition mean1 :: "matrix list \<Rightarrow> error + matrix" where
  "mean1 T = collect (map mean0 T)"

text \<open>
  The loss of one iteration of \<open>mc_pilco\<close>, from the trajectory that \<open>rollout\<close>
  returns:
  \<^verbatim>\<open>states, actions, rewards = (torch.stack(x) for x in zip(*trajs))\<close>
  \<^verbatim>\<open>loss = -rewards.mean(1).mean(0) if maximize else rewards.mean(1).mean(0)\<close>
  An empty trajectory leaves nothing to unpack. The gradient step that follows
  (\<open>backward\<close>, clipping, \<open>opt.step\<close>) is outside the model.
\<close>

definition mc_pilco_loss :: "bool \<Rightarrow> (matrix \<times> matrix \<times> matrix) list \<Rightarrow> error + real list" where
  "mc_pilco_loss maximize trajs =
     (if trajs = [] then Inl ValueError
      else
        ebind (stack (map (\<lambda>(s, a, r). s) trajs)) (\<lambda>states.
        ebind (stack (map (\<lambda>(s, a, r). a) trajs)) (\<lambda>actions.
        ebind (stack (map (\<lambda>(s, a, r). r) trajs)) (\<lambda>rewards.
        ebind (mean1 rewards) (\<lambda>per_step.
        ebind (mean0 per_step) (\<lambda>avg.
          Inr (if maximize then map uminus avg else avg)))))))"

text \<open>
  The reading of the specification: the reward of each step averaged over the particles,
  then averaged over the steps.
\<close>

definition particle_mean :: "matrix \<Rightarrow> real" where
  "particle_mean r = (\<Sum>row\<leftarrow>r. hd row) / real (length r)"

definition time_mean :: "matrix list \<Rightarrow> real" where
  "time_mean rs = (\<Sum>r\<leftarrow>rs. particle_mean r) / real (length rs)"

section \<open>models/modules.py: tensors of any rank and random draws\<close>

text \<open>
  A tensor of any rank is its shape and its entries in row-major order; a scalar tensor
  has the shape \<open>[]\<close> and one entry. The input of a layer carries its strides as
  well, one per axis, since \<open>x.view\<close> succeeds or raises according to them (a tensor
  made by \<open>torch.ones\<close> of shape \<open>[2, 2]\<close> has the strides \<open>[2, 1]\<close>, its
  transpose the strides \<open>[1, 2]\<close>). The entries are listed in the order of the indices
  whatever the strides are. Nothing reads the strides of the buffers of a layer or of a
  result, and they are not kept.
\<close>

record tensor =
  shape :: "nat list"
  elems :: "real list"

record strided = tensor +
  strides :: "nat list"

definition numel :: "'a tensor_scheme \<Rightarrow> nat" where
  "numel t = prod_list (shape t)"

text \<open>
  The random number generator is the stream of the variates it will hand out; a draw of
  \<open>n\<close> values returns the first \<open>n\<close> and the rest of the stream. \<open>torch.rand_like\<close>
  reads them as uniform variates of the unit interval, and \<open>torch.bernoulli\<close> turns each
  of them into 1 when it is below the probability and into 0 otherwise.
\<close>

type_synonym rng = "nat \<Rightarrow> real"

definition draw :: "nat \<Rightarrow> rng \<Rightarrow> real list \<times> rng" where
  "draw n g = (map g [0..<n], \<lambda>k. g (k + n))"

definition rand :: "nat list \<Rightarrow> rng \<Rightarrow> tensor \<times> rng" where
  "rand shp g = (case draw (prod_list shp) g of (us, g') \<Rightarrow> (\<lparr>shape = shp, elems = us\<rparr>, g'))"

definition bernoulli :: "real \<Rightarrow> nat list \<Rightarrow> rng \<Rightarrow> tensor \<times> rng" where
  "bernoulli pr shp g =
     (case draw (prod_list shp) g of
        (us, g') \<Rightarrow> (\<lparr>shape = shp, elems = map (\<lambda>u. if u < pr then 1 else 0) us\<rparr>, g'))"

subsection \<open>Multiplication with broadcasting\<close>

text \<open>
  Shapes are aligned at their last axis; two sizes are compatible when they are equal or
  one of them is 1. The functions below work on reversed shapes, last axis first.
\<close>

fun broadcast_rev :: "nat list \<Rightarrow> nat list \<Rightarrow> nat list option" where
  "broadcast_rev [] ys = Some ys"
| "broadcast_rev (x # xs) [] = Some (x # xs)"
| "broadcast_rev (x # xs) (y # ys) =
     (if x = y then map_option ((#) x) (broadcast_rev xs ys)
      else if y = 1 then map_option ((#) x) (broadcast_rev xs ys)
      else if x = 1 then map_option ((#) y) (broadcast_rev xs ys)
      else None)"

definition broadcast_shapes :: "nat list \<Rightarrow> nat list \<Rightarrow> nat list option" where
  "broadcast_shapes xs ys = map_option rev (broadcast_rev (rev xs) (rev ys))"

text \<open>The digits of a flat index, last axis first.\<close>

fun unravel_rev :: "nat list \<Rightarrow> nat \<Rightarrow> nat list" where
  "unravel_rev [] k = []"
| "unravel_rev (d # ds) k = (k mod d) # unravel_rev ds (k div d)"

text \<open>
  The flat index, in an operand of the given (reversed) shape, of the entry that meets
  the result entry with the given digits: an axis of size 1 is read at 0, an axis the
  operand does not have is ignored.
\<close>

fun source_index :: "nat list \<Rightarrow> nat list \<Rightarrow> nat" where
  "source_index (d # ds) (i # is) = (if d = 1 then 0 else i) + d * source_index ds is"
| "source_index [] is = 0"
| "source_index (d # ds) [] = 0"

definition broadcast_op ::
  "(real \<Rightarrow> real \<Rightarrow> real) \<Rightarrow> 'a tensor_scheme \<Rightarrow> 'b tensor_scheme \<Rightarrow> error + tensor" where
  "broadcast_op f x m =
     (case broadcast_shapes (shape x) (shape m) of
        None \<Rightarrow> Inl RuntimeError
      | Some rs \<Rightarrow>
          Inr \<lparr>shape = rs,
               elems = map (\<lambda>k. f (elems x ! source_index (rev (shape x)) (unravel_rev (rev rs) k))
                                 (elems m ! source_index (rev (shape m)) (unravel_rev (rev rs) k)))
                         [0..<prod_list rs]\<rparr>)"

definition tensor_mul :: "'a tensor_scheme \<Rightarrow> 'b tensor_scheme \<Rightarrow> error + tensor" where
  "tensor_mul x m = broadcast_op (*) x m"

definition tensor_plus :: "'a tensor_scheme \<Rightarrow> 'b tensor_scheme \<Rightarrow> error + tensor" where
  "tensor_plus x m = broadcast_op (+) x m"

subsection \<open>Slicing a shape\<close>

text \<open>
  \<^verbatim>\<open>x.shape[-mask_dims:]\<close> with Python's slice rules: the last \<open>mask_dims\<close> sizes, the
  whole shape when there are fewer or when \<open>mask_dims\<close> is 0, and the sizes from
  position \<open>-mask_dims\<close> on when \<open>mask_dims\<close> is negative.
\<close>

definition trailing_shape :: "int \<Rightarrow> nat list \<Rightarrow> nat list" where
  "trailing_shape mask_dims shp =
     (let n = int (length shp);
          start = - mask_dims;
          first = (if start < 0 then max (n + start) 0 else min start n)
      in drop (nat first) shp)"

subsection \<open>Viewing the input as a sequence of samples\<close>

text \<open>
  \<^verbatim>\<open>x.view(-1, *sample_shape)\<close> first infers the size that \<open>-1\<close> stands for, the
  number of entries divided by the product of the other sizes. torch refuses when that
  product is zero (the size would be ambiguous) and when it does not divide the number of
  entries.
\<close>

definition infer_leading :: "nat \<Rightarrow> nat list \<Rightarrow> error + nat" where
  "infer_leading n sample_shape =
     (if prod_list sample_shape = 0 then Inl RuntimeError
      else if n mod prod_list sample_shape = 0 then Inr (n div prod_list sample_shape)
      else Inl RuntimeError)"

text \<open>
  A view shares the memory of its tensor, so it exists only when the strides allow the
  new shape. torch walks the axes of the tensor from the last one and gathers them into
  chunks: the next axis joins the current chunk when its size is 1 or its stride is the
  number of entries of the chunk times the stride of the chunk's last axis. At the end of
  every chunk the new shape, read from its last size, must give the same number of
  entries: \<open>view_take\<close> is that inner loop, which takes sizes of the view while the
  product is too small or the size is 1, and \<open>view_chunks\<close> the outer one. The arguments
  are the axes as (size, stride) pairs, last axis first, the stride of the chunk's last
  axis, the entries of the chunk so far, the entries the view has taken for it, and the
  sizes of the view not yet taken, last first.
\<close>

fun view_take :: "nat \<Rightarrow> nat \<Rightarrow> nat list \<Rightarrow> nat \<times> nat list" where
  "view_take tensor_numel view_numel [] = (view_numel, [])"
| "view_take tensor_numel view_numel (v # vs) =
     (if view_numel < tensor_numel then view_take tensor_numel (view_numel * v) vs
      else if v = 1 then view_take tensor_numel (view_numel * v) vs
      else (view_numel, v # vs))"

fun view_chunks :: "(nat \<times> nat) list \<Rightarrow> nat \<Rightarrow> nat \<Rightarrow> nat \<Rightarrow> nat list \<Rightarrow> bool" where
  "view_chunks [] chunk_base_stride tensor_numel view_numel vs = (vs = [])"
| "view_chunks [(sz, st)] chunk_base_stride tensor_numel view_numel vs =
     (case view_take (tensor_numel * sz) view_numel vs of
        (view_numel1, vs1) \<Rightarrow>
          (if view_numel1 = tensor_numel * sz then vs1 = [] else False))"
| "view_chunks ((sz, st) # (sz1, st1) # rest) chunk_base_stride tensor_numel view_numel vs =
     (if sz1 = 1 then
        view_chunks ((sz1, st1) # rest) chunk_base_stride (tensor_numel * sz) view_numel vs
      else if st1 = tensor_numel * sz * chunk_base_stride then
        view_chunks ((sz1, st1) # rest) chunk_base_stride (tensor_numel * sz) view_numel vs
      else
        (case view_take (tensor_numel * sz) view_numel vs of
           (view_numel1, vs1) \<Rightarrow>
             (if view_numel1 = tensor_numel * sz
              then view_chunks ((sz1, st1) # rest) st1 1 1 vs1
              else False)))"

text \<open>
  Whether the tensor can be viewed in the new shape (of as many entries). A scalar and a
  tensor without entries can always be.
\<close>

definition view_ok :: "nat list \<Rightarrow> nat list \<Rightarrow> nat list \<Rightarrow> bool" where
  "view_ok old_shape old_strides new_shape =
     (if old_shape = [] then True
      else if prod_list old_shape = 0 then True
      else view_chunks (rev (zip old_shape old_strides)) (last old_strides) 1 1 (rev new_shape))"

text \<open>
  \<^verbatim>\<open>sample = x.view(-1, *sample_shape)[0]\<close>: the first block of the input seen as a
  sequence of blocks of the sample shape. The view raises a \<open>RuntimeError\<close> when the
  leading size cannot be inferred or the strides do not allow the view; the index raises
  an \<open>IndexError\<close> when the view has no block.
\<close>

definition first_sample :: "strided \<Rightarrow> nat list \<Rightarrow> error + tensor" where
  "first_sample x sample_shape =
     ebind (infer_leading (numel x) sample_shape) (\<lambda>n.
       if view_ok (shape x) (strides x) (n # sample_shape) then
         (if n = 0 then Inl IndexError
          else Inr \<lparr>shape = sample_shape, elems = take (prod_list sample_shape) (elems x)\<rparr>)
       else Inl RuntimeError)"

section \<open>models/modules.py: BDropout\<close>

text \<open>
  The attributes of a \<open>BDropout\<close> layer. \<open>regularizer_scale\<close> is the buffer, which
  holds \<open>0.5 * regularizer_scale**2\<close>; \<open>p_keep\<close> is the attribute \<open>p\<close>; \<open>training\<close>
  is the flag every \<open>nn.Module\<close> has.
\<close>

record BDropout =
  regularizer_scale :: real
  rate :: real
  p_keep :: real
  noise :: tensor
  training :: bool

definition BDropout_init :: "real \<Rightarrow> real \<Rightarrow> rng \<Rightarrow> BDropout \<times> rng" where
  "BDropout_init rate0 scale g =
     (case bernoulli (1 - rate0) [] g of
        (n, g') \<Rightarrow>
          (\<lparr>regularizer_scale = 0.5 * scale\<^sup>2, rate = rate0, p_keep = 1 - rate0,
            noise = n, training = True\<rparr>, g'))"

definition BDropout_weights_regularizer :: "BDropout \<Rightarrow> real list \<Rightarrow> real \<times> BDropout" where
  "BDropout_weights_regularizer self weights =
     (let self1 = self\<lparr>p_keep := 1 - rate self\<rparr>
      in (regularizer_scale self1 * (\<Sum>w\<leftarrow>weights. p_keep self1 * w\<^sup>2), self1))"

definition biases_regularizer :: "'a BDropout_scheme \<Rightarrow> real list \<Rightarrow> real" where
  "biases_regularizer self biases = regularizer_scale self * (\<Sum>b\<leftarrow>biases. b\<^sup>2)"

definition BDropout_update_noise :: "BDropout \<Rightarrow> nat list \<Rightarrow> rng \<Rightarrow> BDropout \<times> rng" where
  "BDropout_update_noise self x_shape g =
     (let self1 = self\<lparr>p_keep := 1 - rate self\<rparr>
      in case bernoulli (p_keep self1) x_shape g of
           (n, g') \<Rightarrow> (self1\<lparr>noise := n\<rparr>, g'))"

definition BDropout_resample :: "BDropout \<Rightarrow> rng \<Rightarrow> BDropout \<times> rng" where
  "BDropout_resample self g = BDropout_update_noise self (shape (noise self)) g"

text \<open>
  \<open>forward(x, resample, mask_dims)\<close> returns the output (or the exception), the layer and
  the generator as the call leaves them.
\<close>

definition BDropout_forward ::
  "BDropout \<Rightarrow> strided \<Rightarrow> bool \<Rightarrow> int \<Rightarrow> rng \<Rightarrow> (error + tensor) \<times> BDropout \<times> rng" where
  "BDropout_forward self x resample mask_dims g =
     (let sample_shape = trailing_shape mask_dims (shape x)
      in if sample_shape \<noteq> shape (noise self) then
           (case first_sample x sample_shape of
              Inl e \<Rightarrow> (Inl e, self, g)
            | Inr sample \<Rightarrow>
                (case BDropout_update_noise self (shape sample) g of
                   (self1, g') \<Rightarrow> (tensor_mul x (noise self1), self1, g')))
         else if resample then
           (case bernoulli (p_keep self) (shape x) g of
              (fresh, g') \<Rightarrow> (tensor_mul x fresh, self, g'))
         else (tensor_mul x (noise self), self, g))"

text \<open>A call that may leave out \<open>resample\<close> and \<open>mask_dims\<close>: the defaults of the signature.\<close>

definition BDropout_call ::
  "BDropout \<Rightarrow> strided \<Rightarrow> bool option \<Rightarrow> int option \<Rightarrow> rng \<Rightarrow> (error + tensor) \<times> BDropout \<times> rng" where
  "BDropout_call self x resample mask_dims g =
     BDropout_forward self x (case resample of None \<Rightarrow> True | Some r \<Rightarrow> r)
       (case mask_dims of None \<Rightarrow> 2 | Some d \<Rightarrow> d) g"

section \<open>models/modules.py: CDropout\<close>

record CDropout = BDropout +
  temp :: real
  logit_p :: real
  concrete_noise :: "tensor option"

definition sigmoid :: "real \<Rightarrow> real" where
  "sigmoid v = 1 / (1 + exp (- v))"

definition CDropout_init :: "real \<Rightarrow> real \<Rightarrow> real \<Rightarrow> rng \<Rightarrow> CDropout \<times> rng" where
  "CDropout_init rate0 scale temperature g =
     (case BDropout_init rate0 scale g of
        (b, g') \<Rightarrow>
          (\<lparr>regularizer_scale = regularizer_scale b, rate = rate b, p_keep = p_keep b,
            noise = noise b, training = training b,
            temp = temperature, logit_p = - ln (1 / (1 - rate b) - 1),
            concrete_noise = None\<rparr>, g'))"

definition CDropout_weights_regularizer :: "CDropout \<Rightarrow> real list \<Rightarrow> real" where
  "CDropout_weights_regularizer self weights =
     (let p = sigmoid (logit_p self);
          reg = regularizer_scale self * (\<Sum>w\<leftarrow>weights. p * w\<^sup>2)
      in reg - (- p * ln p - (1 - p) * ln (1 - p)))"

definition CDropout_update_noise :: "CDropout \<Rightarrow> nat list \<Rightarrow> rng \<Rightarrow> CDropout \<times> rng" where
  "CDropout_update_noise self x_shape g =
     (case rand x_shape g of (n, g') \<Rightarrow> (self\<lparr>noise := n\<rparr>, g'))"

text \<open>\<open>resample\<close> is inherited from \<open>BDropout\<close> and reaches the overriding \<open>update_noise\<close>.\<close>

definition CDropout_resample :: "CDropout \<Rightarrow> rng \<Rightarrow> CDropout \<times> rng" where
  "CDropout_resample self g = CDropout_update_noise self (shape (noise self)) g"

text \<open>
  One entry of the relaxed mask,
  \<^verbatim>\<open>((logit_p + noise.log() - (1 - noise).log()) / temp).sigmoid()\<close>, for a positive
  temperature. At the ends of the unit interval the floating-point logarithm is
  \<open>-inf\<close> and the sigmoid gives 0 and 1.
\<close>

definition concrete_value :: "real \<Rightarrow> real \<Rightarrow> real \<Rightarrow> real" where
  "concrete_value lp t u =
     (if u \<le> 0 then 0 else if 1 \<le> u then 1 else sigmoid ((lp + ln u - ln (1 - u)) / t))"

definition CDropout_update_concrete_noise :: "CDropout \<Rightarrow> tensor \<Rightarrow> CDropout" where
  "CDropout_update_concrete_noise self n =
     self\<lparr>p_keep := sigmoid (logit_p self),
          concrete_noise :=
            Some \<lparr>shape = shape n,
                  elems = map (concrete_value (logit_p self) (temp self)) (elems n)\<rparr>\<rparr>"

text \<open>
  The first half of \<open>forward\<close>: which base noise the call works with, whether it counts
  as resampled, and the layer and generator afterwards.
\<close>

definition CDropout_pick_noise ::
  "CDropout \<Rightarrow> strided \<Rightarrow> bool \<Rightarrow> int \<Rightarrow> rng \<Rightarrow> error + (tensor \<times> bool \<times> CDropout \<times> rng)" where
  "CDropout_pick_noise self x resample mask_dims g =
     (let sample_shape = trailing_shape mask_dims (shape x)
      in if resample then
           (case rand (shape x) g of (n, g') \<Rightarrow> Inr (n, True, self, g'))
         else if (case concrete_noise self of
                    None \<Rightarrow> True
                  | Some c \<Rightarrow> sample_shape \<noteq> shape c) then
           (case first_sample x sample_shape of
              Inl e \<Rightarrow> Inl e
            | Inr sample \<Rightarrow>
                (case CDropout_update_noise self (shape sample) g of
                   (self1, g') \<Rightarrow> Inr (noise self1, True, self1, g')))
         else Inr (noise self, False, self, g))"

definition CDropout_forward ::
  "CDropout \<Rightarrow> strided \<Rightarrow> bool \<Rightarrow> int \<Rightarrow> rng \<Rightarrow> (error + tensor) \<times> CDropout \<times> rng" where
  "CDropout_forward self x resample mask_dims g =
     (case CDropout_pick_noise self x resample mask_dims g of
        Inl e \<Rightarrow> (Inl e, self, g)
      | Inr (n, resampled, self1, g') \<Rightarrow>
          (let self2 = (if training self1 then CDropout_update_concrete_noise self1 n
                        else if resampled then CDropout_update_concrete_noise self1 n
                        else self1)
           in case concrete_noise self2 of
                None \<Rightarrow> (Inl AttributeError, self2, g')
              | Some c \<Rightarrow> (tensor_mul x c, self2, g')))"

definition CDropout_call ::
  "CDropout \<Rightarrow> strided \<Rightarrow> bool option \<Rightarrow> int option \<Rightarrow> rng \<Rightarrow> (error + tensor) \<times> CDropout \<times> rng" where
  "CDropout_call self x resample mask_dims g =
     CDropout_forward self x (case resample of None \<Rightarrow> False | Some r \<Rightarrow> r)
       (case mask_dims of None \<Rightarrow> 2 | Some d \<Rightarrow> d) g"

section \<open>models/modules.py: BSequential\<close>

text \<open>
  The modules a \<open>BSequential\<close> chains: affine layers with their weight (flattened) and
  optional bias, the two stochastic layers, and any other module (a nonlinearity), which
  has neither parameters nor regularizers. \<open>TLNDropout\<close> has no instances: its
  constructor fails before \<open>nn.Module\<close> is initialised.
\<close>

datatype module =
    Linear "real list" "real list option"
  | ConvNd "real list" "real list option"
  | BDrop BDropout
  | CDrop CDropout
  | Plain

text \<open>
  The inner loop of \<open>regularization_loss\<close>: the first module of \<open>modules[i:]\<close> that is
  a \<open>Linear\<close> or a convolution; the loop breaks there.
\<close>

fun first_affine :: "module list \<Rightarrow> (real list \<times> real list option) option" where
  "first_affine [] = None"
| "first_affine (Linear w b # rest) = Some (w, b)"
| "first_affine (ConvNd w b # rest) = Some (w, b)"
| "first_affine (BDrop l # rest) = first_affine rest"
| "first_affine (CDrop l # rest) = first_affine rest"
| "first_affine (Plain # rest) = first_affine rest"

text \<open>
  What one module adds to \<open>reg_loss\<close>, given the affine layer found for it, and the
  module afterwards (\<open>BDropout.weights_regularizer\<close> stores \<open>p\<close>). Modules without a
  \<open>weights_regularizer\<close> add nothing.
\<close>

fun module_penalty :: "module \<Rightarrow> (real list \<times> real list option) option \<Rightarrow> real \<times> module" where
  "module_penalty (BDrop l) (Some (w, b)) =
     (case BDropout_weights_regularizer l w of
        (wr, l1) \<Rightarrow>
          (case b of
             None \<Rightarrow> (wr, BDrop l1)
           | Some biases \<Rightarrow> (wr + biases_regularizer l1 biases, BDrop l1)))"
| "module_penalty (CDrop l) (Some (w, b)) =
     (case b of
        None \<Rightarrow> (CDropout_weights_regularizer l w, CDrop l)
      | Some biases \<Rightarrow>
          (CDropout_weights_regularizer l w + biases_regularizer l biases, CDrop l))"
| "module_penalty m found = (0, m)"

text \<open>
  The outer loop. In Python 2 \<open>self._modules.values()\<close> is a list, and at index \<open>i\<close>
  the slice \<open>modules[i:]\<close> is the list that starts with the current module.
\<close>

fun regularization_loop :: "module list \<Rightarrow> real \<Rightarrow> real \<times> module list" where
  "regularization_loop [] reg_loss = (reg_loss, [])"
| "regularization_loop (m # rest) reg_loss =
     (case module_penalty m (first_affine (m # rest)) of
        (pen, m1) \<Rightarrow>
          (case regularization_loop rest (reg_loss + pen) of
             (acc, rest1) \<Rightarrow> (acc, m1 # rest1)))"

definition regularization_loss :: "module list \<Rightarrow> real" where
  "regularization_loss modules = fst (regularization_loop modules 0)"

text \<open>\<open>BSequential.resample\<close>: every \<open>BDropout\<close> (and so every \<open>CDropout\<close>) resamples.\<close>

fun BSequential_resample :: "module list \<Rightarrow> rng \<Rightarrow> module list \<times> rng" where
  "BSequential_resample [] g = ([], g)"
| "BSequential_resample (BDrop l # rest) g =
     (case BDropout_resample l g of
        (l1, g1) \<Rightarrow> (case BSequential_resample rest g1 of (rest1, g2) \<Rightarrow> (BDrop l1 # rest1, g2)))"
| "BSequential_resample (CDrop l # rest) g =
     (case CDropout_resample l g of
        (l1, g1) \<Rightarrow> (case BSequential_resample rest g1 of (rest1, g2) \<Rightarrow> (CDrop l1 # rest1, g2)))"
| "BSequential_resample (m # rest) g =
     (case BSequential_resample rest g of (rest1, g1) \<Rightarrow> (m # rest1, g1))"

text \<open>
  The reading of the specification: every module with a weight regularizer is paired
  with the first affine layer at or after its position, and contributes its weight
  regularizer on the weight of that layer, plus its bias regularizer on the bias when
  there is one; without such a layer it contributes zero.
\<close>

definition is_affine :: "module \<Rightarrow> bool" where
  "is_affine m = (case m of Linear w b \<Rightarrow> True | ConvNd w b \<Rightarrow> True | _ \<Rightarrow> False)"

definition affine_params :: "module \<Rightarrow> real list \<times> real list option" where
  "affine_params m = (case m of Linear w b \<Rightarrow> (w, b) | ConvNd w b \<Rightarrow> (w, b) | _ \<Rightarrow> ([], None))"

definition has_weights_regularizer :: "module \<Rightarrow> bool" where
  "has_weights_regularizer m = (case m of BDrop l \<Rightarrow> True | CDrop l \<Rightarrow> True | _ \<Rightarrow> False)"

definition weights_penalty :: "module \<Rightarrow> real list \<Rightarrow> real" where
  "weights_penalty m w =
     (case m of
        BDrop l \<Rightarrow> regularizer_scale l * (\<Sum>v\<leftarrow>w. (1 - rate l) * v\<^sup>2)
      | CDrop l \<Rightarrow> CDropout_weights_regularizer l w
      | _ \<Rightarrow> 0)"

definition biases_penalty :: "module \<Rightarrow> real list \<Rightarrow> real" where
  "biases_penalty m b =
     (case m of
        BDrop l \<Rightarrow> regularizer_scale l * (\<Sum>v\<leftarrow>b. v\<^sup>2)
      | CDrop l \<Rightarrow> regularizer_scale l * (\<Sum>v\<leftarrow>b. v\<^sup>2)
      | _ \<Rightarrow> 0)"

definition paired_contribution :: "module list \<Rightarrow> nat \<Rightarrow> real" where
  "paired_contribution modules i =
     (if has_weights_regularizer (modules ! i) then
        (case filter is_affine (drop i modules) of
           [] \<Rightarrow> 0
         | a # _ \<Rightarrow>
             (case affine_params a of
                (w, None) \<Rightarrow> weights_penalty (modules ! i) w
              | (w, Some b) \<Rightarrow> weights_penalty (modules ! i) w + biases_penalty (modules ! i) b))
      else 0)"

definition paired_sum :: "module list \<Rightarrow> real" where
  "paired_sum modules = (\<Sum>i\<leftarrow>[0..<length modules]. paired_contribution modules i)"

section \<open>models/modules.py: Policy\<close>

text \<open>
  Keyword arguments are a dictionary from names to values. The wrapped model is the
  parameter \<open>model\<close>, which receives the input and the keyword arguments and acts on a
  state \<open>'s\<close>; \<open>to_complex\<close> (of \<open>prob_mbrl/utils\<close>, with the angle dimensions of the
  policy) is a parameter too. The input is a numpy array or a tensor, and the output is
  of the same kind.
\<close>

datatype pyval = PyBool bool | PyInt int | PyNone

type_synonym kwargs = "string \<rightharpoonup> pyval"

datatype array_or_tensor = NumpyArray tensor | TorchTensor tensor

record Policy =
  pol_scale :: tensor
  pol_bias :: tensor

definition payload :: "array_or_tensor \<Rightarrow> tensor" where
  "payload x = (case x of NumpyArray a \<Rightarrow> a | TorchTensor t \<Rightarrow> t)"

definition Policy_kwargs :: "kwargs \<Rightarrow> kwargs" where
  "Policy_kwargs kw =
     kw(''resample'' \<mapsto> (case kw ''resample'' of None \<Rightarrow> PyBool True | Some v \<Rightarrow> v))"

definition Policy_forward ::
  "(tensor \<Rightarrow> tensor) \<Rightarrow> (tensor \<Rightarrow> kwargs \<Rightarrow> 's \<Rightarrow> (error + tensor) \<times> 's) \<Rightarrow> Policy
     \<Rightarrow> array_or_tensor \<Rightarrow> kwargs \<Rightarrow> 's \<Rightarrow> (error + array_or_tensor) \<times> 's" where
  "Policy_forward to_complex model self x kw s =
     (let return_numpy = (case x of NumpyArray a \<Rightarrow> True | TorchTensor t \<Rightarrow> False);
          kw1 = Policy_kwargs kw;
          xt = payload x
      in case model (to_complex xt) kw1 s of
           (out, s1) \<Rightarrow>
             (ebind out (\<lambda>y.
              ebind (tensor_mul (pol_scale self) y) (\<lambda>sy.
              ebind (tensor_plus sy (pol_bias self)) (\<lambda>u.
                Inr (if return_numpy then NumpyArray u else TorchTensor u)))), s1))"

section \<open>algorithms/mc\_pilco.py: rollout\<close>

subsection \<open>Matrix operations of the moment matching\<close>

definition bop_row :: "(real \<Rightarrow> real \<Rightarrow> real) \<Rightarrow> real list \<Rightarrow> real list \<Rightarrow> error + real list" where
  "bop_row f r q =
     (case bzip (\<lambda>a b. Inr (f a b)) r q of None \<Rightarrow> Inl RuntimeError | Some vs \<Rightarrow> collect vs)"

text \<open>\<^verbatim>\<open>X - m\<close> and \<^verbatim>\<open>m + Z\<close> for a batch and a vector: the vector meets every row.\<close>

definition sub_vec :: "matrix \<Rightarrow> real list \<Rightarrow> error + matrix" where
  "sub_vec A m = collect (map (\<lambda>r. bop_row (-) r m) A)"

definition vec_add :: "real list \<Rightarrow> matrix \<Rightarrow> error + matrix" where
  "vec_add m A = collect (map (\<lambda>r. bop_row (+) m r) A)"

text \<open>\<^verbatim>\<open>A.t()\<close>.\<close>

definition transpose_m :: "matrix \<Rightarrow> matrix" where
  "transpose_m A = map (\<lambda>j. map (\<lambda>r. r ! j) A) [0..<width A]"

text \<open>\<^verbatim>\<open>A.mm(B)\<close>: the rows of \<open>A\<close> must be as long as \<open>B\<close> has rows.\<close>

definition mm :: "matrix \<Rightarrow> matrix \<Rightarrow> error + matrix" where
  "mm A B =
     (if list_all (\<lambda>r. length r = length B) A
      then Inr (map (\<lambda>r. map (\<lambda>j. \<Sum>k\<leftarrow>[0..<length B]. r ! k * B ! k ! j) [0..<width B]) A)
      else Inl RuntimeError)"

text \<open>\<^verbatim>\<open>C / M\<close> with the Python integer \<open>M\<close>; dividing by zero gives \<open>inf\<close> or \<open>nan\<close>.\<close>

definition div_scalar :: "matrix \<Rightarrow> nat \<Rightarrow> error + matrix" where
  "div_scalar C M = (if M = 0 then Inl NonFinite else Inr (map (map (\<lambda>v. v / real M)) C))"

text \<open>\<^verbatim>\<open>1e-6*torch.eye(n)\<close>.\<close>

definition jitter :: "nat \<Rightarrow> matrix" where
  "jitter n = map (\<lambda>i. map (\<lambda>j. 1 / 10 ^ 6 * (if i = j then 1 else 0)) [0..<n]) [0..<n]"

text \<open>
  The block under \<^verbatim>\<open>if mm_states:\<close>, and with the rewards and \<open>z3\<close> in place of the
  states and \<open>z1\<close> the block under \<^verbatim>\<open>if mm_rewards:\<close>. \<open>potrf\<close> is torch's Cholesky
  decomposition (the upper factor \<open>U\<close> with \<open>U\<^sup>T U = S\<close>, an exception when \<open>S\<close> is not
  positive definite); it is a parameter of the model.
\<close>

definition moment_match ::
  "(matrix \<Rightarrow> error + matrix) \<Rightarrow> nat \<Rightarrow> matrix \<Rightarrow> matrix \<Rightarrow> error + matrix" where
  "moment_match potrf M A z =
     ebind (mean0 A) (\<lambda>m.
     ebind (sub_vec A m) (\<lambda>deltas.
     ebind (mm (transpose_m deltas) deltas) (\<lambda>C.
     ebind (div_scalar C M) (\<lambda>CM.
     ebind (matrix_add CM (jitter (length m))) (\<lambda>S.
     ebind (potrf S) (\<lambda>U.
     ebind (mm z U) (\<lambda>zU.
       vec_add m zU)))))))"

subsection \<open>The loop\<close>

text \<open>
  The keyword arguments of \<open>rollout\<close>. The policy, the one-step model \<open>forward\<close> and
  the sampler \<open>randn\<close> are parameters that act on a state \<open>'s\<close> (masks, generator);
  \<open>forward\<close> is always called with \<open>measurement_noise=True\<close>.
\<close>

record rollout_opts =
  resample_model :: bool
  resample_policy :: bool
  mm_states :: bool
  mm_rewards :: bool
  z_mm :: "matrix option"
  z_states :: "matrix option"
  z_rewards :: "matrix option"

type_synonym 's sampler = "nat list \<Rightarrow> 's \<Rightarrow> matrix \<times> 's"
type_synonym 's policy_fn = "matrix \<Rightarrow> bool \<Rightarrow> 's \<Rightarrow> matrix \<times> 's"
type_synonym 's forward_fn = "matrix \<Rightarrow> matrix \<Rightarrow> bool \<Rightarrow> matrix \<Rightarrow> matrix \<Rightarrow> 's \<Rightarrow> (matrix \<times> matrix) \<times> 's"

text \<open>One pass through the body: the entry appended to the trajectory and the next states.\<close>

definition rollout_step ::
  "(matrix \<Rightarrow> error + matrix) \<Rightarrow> 's sampler \<Rightarrow> 's policy_fn \<Rightarrow> 's forward_fn \<Rightarrow> rollout_opts
     \<Rightarrow> nat \<Rightarrow> nat \<Rightarrow> matrix \<Rightarrow> 's
     \<Rightarrow> (error + (matrix \<times> matrix \<times> matrix) \<times> matrix) \<times> 's" where
  "rollout_step potrf randn policy forward opts M i states s =
     (case get_z_rnd randn (z_mm opts) i (shape_of states) s of
        (Inl e, s1) \<Rightarrow> (Inl e, s1)
      | (Inr z1, s1) \<Rightarrow>
     (case get_z_rnd randn (z_states opts) i (shape_of states) s1 of
        (Inl e, s2) \<Rightarrow> (Inl e, s2)
      | (Inr z2, s2) \<Rightarrow>
     (case get_z_rnd randn (z_rewards opts) i [length states, 1] s2 of
        (Inl e, s3) \<Rightarrow> (Inl e, s3)
      | (Inr z3, s3) \<Rightarrow>
     (case policy states (resample_policy opts) s3 of
        (actions, s4) \<Rightarrow>
     (case forward states actions (resample_model opts) z2 z3 s4 of
        ((next_states, rewards), s5) \<Rightarrow>
          (ebind (if mm_states opts then moment_match potrf M next_states z1
                  else Inr next_states) (\<lambda>next_states1.
           ebind (if mm_rewards opts then moment_match potrf M rewards z3
                  else Inr rewards) (\<lambda>rewards1.
             Inr ((states, actions, rewards1), next_states1))), s5))))))"

fun rollout_loop ::
  "(matrix \<Rightarrow> error + matrix) \<Rightarrow> 's sampler \<Rightarrow> 's policy_fn \<Rightarrow> 's forward_fn \<Rightarrow> rollout_opts
     \<Rightarrow> nat \<Rightarrow> nat \<Rightarrow> nat \<Rightarrow> matrix \<Rightarrow> (matrix \<times> matrix \<times> matrix) list \<Rightarrow> 's
     \<Rightarrow> (error + (matrix \<times> matrix \<times> matrix) list) \<times> 's" where
  "rollout_loop potrf randn policy forward opts M 0 i states trajectory s = (Inr trajectory, s)"
| "rollout_loop potrf randn policy forward opts M (Suc n) i states trajectory s =
     (case rollout_step potrf randn policy forward opts M i states s of
        (Inl e, s1) \<Rightarrow> (Inl e, s1)
      | (Inr (entry, next_states), s1) \<Rightarrow>
          rollout_loop potrf randn policy forward opts M n (Suc i) next_states
            (trajectory @ [entry]) s1)"

definition rollout ::
  "(matrix \<Rightarrow> error + matrix) \<Rightarrow> 's sampler \<Rightarrow> 's policy_fn \<Rightarrow> 's forward_fn \<Rightarrow> rollout_opts
     \<Rightarrow> matrix \<Rightarrow> nat \<Rightarrow> 's \<Rightarrow> (error + (matrix \<times> matrix \<times> matrix) list) \<times> 's" where
  "rollout potrf randn policy forward opts states steps s =
     rollout_loop potrf randn policy forward opts (length states) steps 0 states [] s"

text \<open>
  The reading of the specification, entry by entry: the mean of every column; the sample
  covariance normalised by \<open>M\<close> with \<open>1e-6\<close> on the diagonal; the batch redrawn as
  \<open>m + z L\<close>.
\<close>

definition column_means :: "matrix \<Rightarrow> real list" where
  "column_means A = map (\<lambda>j. (\<Sum>r\<leftarrow>A. r ! j) / real (length A)) [0..<width A]"

definition covariance :: "nat \<Rightarrow> matrix \<Rightarrow> matrix" where
  "covariance M A =
     map (\<lambda>j. map (\<lambda>k. (\<Sum>r\<leftarrow>A. (r ! j - column_means A ! j) * (r ! k - column_means A ! k))
                         / real M
                       + (if j = k then 1 / 10 ^ 6 else 0))
                [0..<width A])
         [0..<width A]"

definition redraw :: "real list \<Rightarrow> matrix \<Rightarrow> matrix \<Rightarrow> matrix" where
  "redraw m z L =
     map (\<lambda>r. map (\<lambda>j. m ! j + (\<Sum>k\<leftarrow>[0..<length L]. r ! k * L ! k ! j)) [0..<length m]) z"

section \<open>Properties of the noise fetch\<close>

lemma index_rows_in_range:
  assumes "list_all (\<lambda>j. j < length z) idxs"
  shows "index_rows z idxs = Inr (map (\<lambda>j. z ! j) idxs)"
  using assms by (simp add: index_rows_def)

lemma get_z_rnd_pool_rows:
  assumes "0 < n" and "n \<le> length pool"
  shows "get_z_rnd randn (Some pool) i (n # ds) g
           = (Inr (map (\<lambda>k. pool ! ((i + k) mod n)) [0..<n]), g)"
proof -
  have "list_all (\<lambda>j. j < length pool) (map (\<lambda>j. j mod n) (map (\<lambda>k. i + k) [0..<n]))"
  proof -
    have "(i + k) mod n < length pool" for k
      using assms by (meson less_le_trans mod_less_divisor)
    then show ?thesis by (simp add: list_all_iff)
  qed
  then show ?thesis
    using assms by (simp add: get_z_rnd_def torch_range_def index_rows_in_range comp_def)
qed

lemma get_z_rnd_pool_keeps_state:
  "snd (get_z_rnd randn (Some pool) i shp g) = g"
  by (simp add: get_z_rnd_def split: list.splits sum.splits)

text \<open>
  Claim C1. The claim: with a pool of at least steps + particles rows, the noise of step
  \<open>i\<close> is read at indices taken cyclically modulo the length of the pool. The code
  reduces modulo the number of particles instead. For a pool of five rows (three steps,
  two particles) and step 1, the code returns rows 1 and 0, where indices modulo the
  pool length give rows 1 and 2.
\<close>

theorem get_z_rnd_wraps_at_particle_count:
  "get_z_rnd randn (Some [[10], [11], [12], [13], [14]]) 1 [2, 1] g = (Inr [[11], [10]], g)
   \<and> cyclic_pool_rows [[10], [11], [12], [13], [14]] 1 2 = [[11], [12]]"
  by (simp add: get_z_rnd_def torch_range_def index_rows_def cyclic_pool_rows_def upt_rec)

section \<open>Properties of the dynamics model\<close>

lemma ebind_Inr_iff: "ebind m f = Inr y \<longleftrightarrow> (\<exists>v. m = Inr v \<and> f v = Inr y)"
  by (cases m) (simp_all add: ebind_def)

lemma ebind_Inr [simp]: "ebind (Inr v) f = f v"
  by (simp add: ebind_def)

lemma ebind_Inl [simp]: "ebind (Inl e) f = Inl e"
  by (simp add: ebind_def)

lemma width_rect:
  assumes "A \<noteq> []" and "rect n A"
  shows "width A = n"
  using assms by (cases A) (simp_all add: width_def rect_def)

lemma last_column_rect:
  assumes "rect n A" and "0 < n"
  shows "map (\<lambda>r. r ! (n - 1)) A = map last A"
proof (rule map_cong[OF refl])
  fix r assume "r \<in> set A"
  then have "length r = n" using assms(1) by (simp add: rect_def list_all_iff)
  with assms(2) show "r ! (n - 1) = last r"
    by (metis last_conv_nth length_greater_0_conv)
qed

lemma tensor_max_Max:
  assumes "vs \<noteq> []"
  shows "tensor_max vs = Inr (Max (set vs))"
proof (cases vs)
  case Nil
  with assms show ?thesis by simp
next
  case (Cons v rest)
  have "Max (set (v # rest)) = fold max rest v" by (rule Max.set_eq_fold)
  with Cons show ?thesis by (simp add: tensor_max_def)
qed

lemma tensor_min_Min:
  assumes "vs \<noteq> []"
  shows "tensor_min vs = Inr (Min (set vs))"
proof (cases vs)
  case Nil
  with assms show ?thesis by simp
next
  case (Cons v rest)
  have "Min (set (v # rest)) = fold min rest v" by (rule Min.set_eq_fold)
  with Cons show ?thesis by (simp add: tensor_min_def)
qed

text \<open>
  Claim C8, as stated: \<open>maxR\<close> and \<open>minR\<close> are the extremes of the second-to-last
  column of \<open>Y\<close>. On a target matrix with the columns (1, 2) and (5, 7) the buffers
  receive 7 and 5, the extremes of the last column; the second-to-last column has the
  extremes 2 and 1.
\<close>

theorem set_dataset_second_to_last_counterexample:
  "(case DynamicsModel_set_dataset (\<lambda>X. X) [[0], [0]] [[1, 5], [2, 7]]
           \<lparr>buf_X = [[1]], buf_Y = [[1]], maxR = 1, minR = 1\<rparr> of
      Inl e \<Rightarrow> False
    | Inr m \<Rightarrow> maxR m = 7 \<and> minR m = 5
        \<and> maxR m \<noteq> Max (set (second_to_last_column [[1, 5], [2, 7]]))
        \<and> minR m \<noteq> Min (set (second_to_last_column [[1, 5], [2, 7]])))"
  by (simp add: DynamicsModel_set_dataset_def Regressor_set_dataset_def index_select_last_def
      width_def tensor_max_def tensor_min_def second_to_last_column_def)

text \<open>
  Claim C8, amended: for every dataset with at least one row and one target column,
  \<open>set_dataset\<close> stores the targets and sets \<open>maxR\<close> and \<open>minR\<close> to the maximum
  and the minimum of the last column of \<open>Y\<close>.
\<close>

theorem set_dataset_tracks_last_column:
  assumes "Y \<noteq> []" and "0 < n" and "rect n Y"
  shows "\<exists>m. DynamicsModel_set_dataset to_complex X Y self = Inr m
           \<and> buf_Y m = Y
           \<and> maxR m = Max (last ` set Y) \<and> minR m = Min (last ` set Y)"
proof -
  have w: "width Y = n" using assms by (simp add: width_rect)
  have sel: "index_select_last Y (int n - 1) = Inr (map last Y)"
    using assms w last_column_rect[OF assms(3) assms(2)]
    by (simp add: index_select_last_def nat_diff_distrib')
  have ne: "map last Y \<noteq> []" using assms(1) by simp
  show ?thesis
    by (simp add: DynamicsModel_set_dataset_def Regressor_set_dataset_def w sel
        tensor_max_Max[OF ne] tensor_min_Min[OF ne])
qed

theorem set_dataset_tracks_last_column_witness:
  "\<exists>m. DynamicsModel_set_dataset (\<lambda>X. X) [[0], [0]] [[1, 5], [2, 7]]
          \<lparr>buf_X = [[1]], buf_Y = [[1]], maxR = 1, minR = 1\<rparr> = Inr m
       \<and> buf_Y m = [[1, 5], [2, 7]]
       \<and> maxR m = Max (last ` set [[1, 5], [2, 7]]) \<and> minR m = Min (last ` set [[1, 5], [2, 7]])"
proof -
  have h1: "[[1, 5], [2, 7 :: real]] \<noteq> []" by simp
  have h2: "0 < (2 :: nat)" by simp
  have h3: "rect 2 [[1, 5], [2, 7 :: real]]" by (simp add: rect_def)
  show ?thesis by (rule set_dataset_tracks_last_column[OF h1 h2 h3])
qed

lemma split_last_first_chunk:
  assumes "split_last D A = Inr cs" and "unpack2 cs = Inr (a, b)"
  shows "a = map (take D) A"
proof -
  from assms(2) have cs: "cs = [a, b]"
    by (auto simp: unpack2_def split: list.splits)
  define k where "k = max 1 ((width A + D - 1) div D)"
  from assms(1) have m: "cs = map (\<lambda>k. map (\<lambda>r. take D (drop (k * D) r)) A) [0..<k]"
    by (auto simp: split_last_def k_def split: if_splits)
  with cs have "k = 2" by (metis diff_zero length_Cons length_map length_upt list.size(3) numeral_2_eq_2)
  with m cs show ?thesis by (simp add: upt_rec)
qed

lemma state_portion_split:
  assumes "ebind (case inputs of
              AsTuple prev_states actions \<Rightarrow> Inr prev_states
            | AsTensor _ \<Rightarrow>
                ebind (split_last (width outs) x) (\<lambda>cs.
                ebind (unpack2 cs) (\<lambda>(prev_states, actions). Inr prev_states))) f = Inr y"
    and "input_tensor inputs = Inr x"
  shows "f (state_portion inputs outs) = Inr y"
proof (cases inputs)
  case (AsTuple p a)
  with assms show ?thesis by (simp add: state_portion_def)
next
  case (AsTensor t)
  with assms(2) have x: "x = t" by (simp add: input_tensor_def)
  from assms(1) AsTensor obtain cs a b where
    "split_last (width outs) x = Inr cs" "unpack2 cs = Inr (a, b)" "f a = Inr y"
    by (auto simp: ebind_Inr_iff)
  then show ?thesis
    using split_last_first_chunk[of "width outs" x cs a b] AsTensor x
    by (simp add: state_portion_def)
qed

text \<open>
  Claim C9: when an external reward function \<open>rf\<close> is configured and the regressor
  returns samples \<open>outs\<close>, a call that returns gives the rewards \<open>rf prev\<close>, where
  \<open>prev\<close> is the state portion of the input (not the predicted next states), and the
  whole of \<open>outs\<close> is the state delta: the returned states are \<open>outs\<close>, or
  \<open>prev + outs\<close> when \<open>deltas\<close> is off. No column of \<open>outs\<close> is split off.
\<close>

theorem forward_external_reward:
  assumes "input_tensor inputs = Inr x"
    and "regressor_forward x s = (Samples outs, s')"
    and "DynamicsModel_forward regressor_forward (Some rf) inputs separate_outputs deltas s
           = (Inr out, s'')"
  shows "\<exists>states.
           (if deltas then states = outs
            else matrix_add (state_portion inputs outs) outs = Inr states)
         \<and> (if separate_outputs then out = Separate states (rf (state_portion inputs outs))
            else \<exists>j. cat_last states (rf (state_portion inputs outs)) = Inr j \<and> out = Joined j)"
proof -
  let ?prev = "state_portion inputs outs"
  from assms have "DynamicsModel_outputs (Some rf) inputs x separate_outputs deltas outs = Inr out"
    by (simp add: DynamicsModel_forward_def)
  note run = this[unfolded DynamicsModel_outputs_def]
  have "ebind (if deltas then Inr outs else matrix_add ?prev outs)
       (\<lambda>states.
     if separate_outputs then Inr (Separate states (rf ?prev))
     else ebind (cat_last states (rf ?prev)) (\<lambda>j. Inr (Joined j))) = Inr out"
    using state_portion_split[OF run assms(1)] by simp
  then show ?thesis
    by (auto simp: ebind_Inr_iff split: if_splits)
qed

theorem forward_external_reward_witness:
  "\<exists>states.
     (if False then states = [[1, 2]]
      else matrix_add (state_portion (AsTensor [[3, 4, 5]]) [[1, 2]]) [[1, 2]] = Inr states)
   \<and> (if True
       then (Separate [[4, 6]] [[7]] :: unit dyn_out)
              = Separate states ((\<lambda>st. map (\<lambda>r. [sum_list r]) st)
                                   (state_portion (AsTensor [[3, 4, 5]]) [[1, 2]]))
       else \<exists>j. cat_last states ((\<lambda>st. map (\<lambda>r. [sum_list r]) st)
                                    (state_portion (AsTensor [[3, 4, 5]]) [[1, 2]])) = Inr j
                \<and> (Separate [[4, 6]] [[7]] :: unit dyn_out) = Joined j)"
proof -
  have h1: "input_tensor (AsTensor [[3, 4, 5]]) = Inr [[3, 4, 5]]"
    by (simp add: input_tensor_def)
  have h2: "(\<lambda>x s. (Samples [[1, 2]], s)) [[3, 4, 5]] () = (Samples [[1, 2]] :: unit net_out, ())"
    by simp
  have h3: "DynamicsModel_forward (\<lambda>x s. (Samples [[1, 2]], s))
              (Some (\<lambda>st. map (\<lambda>r. [sum_list r]) st)) (AsTensor [[3, 4, 5]]) True False ()
            = (Inr (Separate [[4, 6]] [[7]] :: unit dyn_out), ())"
    by code_simp
  show ?thesis
    by (rule forward_external_reward[OF h1 h2 h3])
qed

section \<open>Properties of the objective\<close>

lemma collect_map_Inr: "collect (map (\<lambda>x. Inr (f x)) xs) = Inr (map f xs)"
  by (induction xs) simp_all

lemma collect_cong_Inr:
  assumes "\<And>x. x \<in> set xs \<Longrightarrow> g x = Inr (f x)"
  shows "collect (map g xs) = Inr (map f xs)"
  using assms by (induction xs) simp_all

lemma mean0_column:
  assumes "r \<noteq> []" and "rect 1 r"
  shows "mean0 r = Inr [particle_mean r]"
proof -
  have w: "width r = 1" using assms by (rule width_rect)
  have eq: "map (\<lambda>row. row ! 0) r = map hd r"
  proof (rule map_cong[OF refl])
    fix row assume "row \<in> set r"
    then have "length row = 1" using assms(2) by (simp add: rect_def list_all_iff)
    then show "row ! 0 = hd row" by (cases row) simp_all
  qed
  have "mean0 r = Inr [sum_list (map (\<lambda>row. row ! 0) r) / real (length r)]"
    using assms(1) by (simp add: mean0_def w)
  then show ?thesis unfolding eq particle_mean_def .
qed

lemma stack_same_shape:
  assumes "ms \<noteq> []" and "list_all (\<lambda>m. shape_of m = shp) ms"
  shows "stack ms = Inr ms"
  using assms by (cases ms) (auto simp: stack_def list_all_iff)

text \<open>
  Claim C3: for a trajectory of at least one step whose reward batches all have \<open>M > 0\<close>
  rows and one column (and whose state and action batches stack), the objective is the
  mean over the particles followed by the mean over the steps, negated exactly when
  \<open>maximize\<close> holds. Over the time axis the code takes the mean, one of the two
  alternatives the claim allows.
\<close>

theorem mc_pilco_loss_mean_of_means:
  assumes "trajs \<noteq> []" and "0 < M"
    and "stack (map (\<lambda>(s, a, r). s) trajs) = Inr S"
    and "stack (map (\<lambda>(s, a, r). a) trajs) = Inr A"
    and "list_all (\<lambda>(s, a, r). length r = M \<and> rect 1 r) trajs"
  shows "mc_pilco_loss maximize trajs
           = Inr [if maximize then - time_mean (map (\<lambda>(s, a, r). r) trajs)
                  else time_mean (map (\<lambda>(s, a, r). r) trajs)]"
proof -
  let ?rs = "map (\<lambda>(s, a, r). r) trajs"
  have each: "r \<noteq> [] \<and> rect 1 r \<and> shape_of r = [M, 1]" if "r \<in> set ?rs" for r
  proof -
    from that assms(5) have l: "length r = M" and re: "rect 1 r"
      by (auto simp: list_all_iff)
    from l assms(2) have ne: "r \<noteq> []" by auto
    with re l show ?thesis by (simp add: shape_of_def width_rect)
  qed
  have ne: "?rs \<noteq> []" using assms(1) by simp
  have st: "stack ?rs = Inr ?rs"
    using ne each by (intro stack_same_shape[where shp = "[M, 1]"]) (simp_all add: list_all_iff)
  have m1: "mean1 ?rs = Inr (map (\<lambda>r. [particle_mean r]) ?rs)"
    unfolding mean1_def using each by (intro collect_cong_Inr) (simp add: mean0_column)
  let ?ps = "map (\<lambda>r. [particle_mean r]) ?rs"
  have psne: "?ps \<noteq> []" using ne by simp
  have "rect 1 ?ps" by (simp add: rect_def list_all_iff)
  with psne have w: "width ?ps = 1" by (rule width_rect)
  have "mean0 ?ps = Inr [sum_list (map (\<lambda>row. row ! 0) ?ps) / real (length ?ps)]"
    using psne by (simp only: mean0_def w) simp
  moreover have "map (\<lambda>row. row ! 0) ?ps = map particle_mean ?rs" by simp
  ultimately have m0: "mean0 ?ps = Inr [time_mean ?rs]"
    by (simp only: time_mean_def length_map)
  have "mc_pilco_loss maximize trajs
          = Inr (if maximize then map uminus [time_mean ?rs] else [time_mean ?rs])"
    unfolding mc_pilco_loss_def
    by (simp only: assms(1) if_False assms(3) assms(4) st m1 m0 ebind_Inr)
  then show ?thesis by simp
qed

theorem mc_pilco_loss_mean_of_means_witness:
  "mc_pilco_loss True [([[0, 0], [0, 0]], [[1], [1]], [[2], [4]]),
                       ([[1, 1], [1, 1]], [[0], [0]], [[6], [8]])]
     = Inr [if True then - time_mean (map (\<lambda>(s, a, r). r)
                      [([[0, 0], [0, 0]], [[1], [1]], [[2], [4]]),
                       ([[1, 1], [1, 1]], [[0], [0]], [[6], [8]])])
            else time_mean (map (\<lambda>(s, a, r). r)
                      [([[0, 0], [0, 0]], [[1], [1]], [[2], [4]]),
                       ([[1, 1], [1, 1]], [[0], [0]], [[6], [8]])])]
   \<and> time_mean [[[2], [4]], [[6], [8]]] = 5"
proof -
  let ?t = "[([[0, 0], [0, 0]], [[1], [1]], [[2], [4]]),
             ([[1, 1], [1, 1]], [[0], [0]], [[6], [8 :: real]])] :: (matrix \<times> matrix \<times> matrix) list"
  have h1: "?t \<noteq> []" by simp
  have h2: "0 < (2 :: nat)" by simp
  have h3: "stack (map (\<lambda>(s, a, r). s) ?t) = Inr [[[0, 0], [0, 0]], [[1, 1], [1, 1]]]"
    by (simp add: stack_def shape_of_def width_def)
  have h4: "stack (map (\<lambda>(s, a, r). a) ?t) = Inr [[[1], [1]], [[0], [0]]]"
    by (simp add: stack_def shape_of_def width_def)
  have h5: "list_all (\<lambda>(s, a, r). length r = 2 \<and> rect 1 r) ?t"
    by (simp add: rect_def)
  have v: "time_mean [[[2], [4]], [[6], [8]]] = 5"
    by (simp add: time_mean_def particle_mean_def)
  show ?thesis
    using mc_pilco_loss_mean_of_means[OF h1 h2 h3 h4 h5, of True] v by simp
qed

section \<open>Properties of broadcasting\<close>

lemma source_index_unravel:
  "source_index ms (unravel_rev (ms @ extra) k) = k mod prod_list ms"
proof (induction ms arbitrary: k)
  case Nil
  show ?case by simp
next
  case (Cons d ds)
  have "k mod (d * prod_list ds) = d * (k div d mod prod_list ds) + k mod d"
    by (rule mod_mult2_eq)
  with Cons show ?case by simp
qed

lemma broadcast_rev_prefix: "broadcast_rev (ms @ extra) ms = Some (ms @ extra)"
proof (induction ms)
  case Nil
  show ?case by (cases extra) simp_all
next
  case (Cons d ds)
  then show ?case by simp
qed

lemma broadcast_shapes_suffix: "broadcast_shapes (pre @ ms) ms = Some (pre @ ms)"
  by (simp add: broadcast_shapes_def broadcast_rev_prefix)

text \<open>
  When the shape of the mask is a suffix of the shape of the input, the product has the
  shape of the input, and entry \<open>k\<close> of the input meets entry \<open>k mod numel m\<close> of the
  mask: the mask is repeated along the leading axes.
\<close>

lemma tensor_mul_suffix:
  assumes "shape x = pre @ shape m"
  shows "tensor_mul x m
           = Inr \<lparr>shape = shape x,
                  elems = map (\<lambda>k. elems x ! k * elems m ! (k mod numel m)) [0..<numel x]\<rparr>"
proof -
  have b: "broadcast_shapes (shape x) (shape m) = Some (shape x)"
    using broadcast_shapes_suffix[of pre "shape m"] assms by simp
  have ix: "source_index (rev (shape x)) (unravel_rev (rev (shape x)) k) = k"
    if "k < numel x" for k
    using source_index_unravel[of "rev (shape x)" "[]" k] that by (simp add: numel_def)
  have im: "source_index (rev (shape m)) (unravel_rev (rev (shape x)) k) = k mod numel m" for k
    using source_index_unravel[of "rev (shape m)" "rev pre" k] assms by (simp add: numel_def)
  have "map (\<lambda>k. elems x ! source_index (rev (shape x)) (unravel_rev (rev (shape x)) k)
              * elems m ! source_index (rev (shape m)) (unravel_rev (rev (shape x)) k))
          [0..<numel x]
        = map (\<lambda>k. elems x ! k * elems m ! (k mod numel m)) [0..<numel x]"
    by (rule map_cong[OF refl]) (simp add: ix im)
  then show ?thesis
    by (simp add: tensor_mul_def broadcast_op_def b numel_def)
qed

lemma tensor_mul_same_shape:
  assumes "shape m = shape x"
  shows "tensor_mul x m
           = Inr \<lparr>shape = shape x, elems = map (\<lambda>k. elems x ! k * elems m ! k) [0..<numel x]\<rparr>"
proof -
  have "shape x = [] @ shape m" using assms by simp
  then have "tensor_mul x m
           = Inr \<lparr>shape = shape x,
                  elems = map (\<lambda>k. elems x ! k * elems m ! (k mod numel m)) [0..<numel x]\<rparr>"
    by (rule tensor_mul_suffix)
  moreover have "map (\<lambda>k. elems x ! k * elems m ! (k mod numel m)) [0..<numel x]
                 = map (\<lambda>k. elems x ! k * elems m ! k) [0..<numel x]"
    by (rule map_cong[OF refl]) (simp add: numel_def assms)
  ultimately show ?thesis by simp
qed

lemma trailing_shape_suffix: "\<exists>pre. shp = pre @ trailing_shape mask_dims shp"
proof -
  have "shp = take n shp @ drop n shp" for n by simp
  then show ?thesis unfolding trailing_shape_def Let_def by blast
qed

lemma shape_bernoulli [simp]: "shape (fst (bernoulli pr shp g)) = shp"
  by (simp add: bernoulli_def draw_def)

lemma shape_rand [simp]: "shape (fst (rand shp g)) = shp"
  by (simp add: rand_def draw_def)

section \<open>Evaluation at small sizes\<close>

lemma upt_4: "[0..<4] = [0, 1, 2, 3]"
  by code_simp

lemma map_upt_4: "map f [0..<4] = [f 0, f 1, f 2, f 3]"
  by (simp add: upt_4)

lemma upt_8: "[0..<8] = [0, 1, 2, 3, 4, 5, 6, 7]"
  by code_simp

lemma map_upt_8: "map f [0..<8] = [f 0, f 1, f 2, f 3, f 4, f 5, f 6, f 7]"
  by (simp add: upt_8)

lemma draw_one: "draw (Suc 0) g = ([g 0], \<lambda>k. g (k + 1))"
  by (simp add: draw_def)

lemma rand_scalar: "rand [] g = (\<lparr>shape = [], elems = [g 0]\<rparr>, \<lambda>k. g (k + 1))"
  by (simp add: rand_def draw_def)

lemma sigmoid_inj: "sigmoid a = sigmoid b \<longleftrightarrow> a = b"
  by (simp add: sigmoid_def field_simps)

lemma concrete_value_half: "concrete_value 0 (1/10) (1/2) = 1/2"
  by (simp add: concrete_value_def sigmoid_def)

lemma concrete_value_quarter: "concrete_value 0 (1/10) (1/4) \<noteq> 1/2"
proof -
  have "ln (1/4 :: real) < ln (3/4)" by (subst ln_less_cancel_iff) simp_all
  then have "(0 + ln (1/4 :: real) - ln (1 - 1/4)) / (1/10) \<noteq> 0" by simp
  then have "sigmoid ((0 + ln (1/4 :: real) - ln (1 - 1/4)) / (1/10)) \<noteq> sigmoid 0"
    using sigmoid_inj by blast
  then show ?thesis by (simp add: concrete_value_def sigmoid_def)
qed

section \<open>Properties of the view\<close>

text \<open>
  The first sample of a contiguous input is its first block. An input without entries
  can be viewed, and the index then raises an \<open>IndexError\<close>; when the sample shape
  has a zero the view itself raises. The transpose of a 2 by 2 tensor cannot be viewed
  as rows of four, and a permuted tensor not as a sequence of its last axis.
\<close>

lemma first_sample_contiguous:
  "first_sample \<lparr>shape = [2, 2], elems = [1, 2, 3, 4], strides = [2, 1]\<rparr> [2]
     = Inr \<lparr>shape = [2], elems = [1, 2]\<rparr>"
  by code_simp

lemma first_sample_no_entries:
  "first_sample \<lparr>shape = [0, 3], elems = [], strides = [3, 1]\<rparr> [3] = Inl IndexError"
  by code_simp

lemma first_sample_zero_sample_shape:
  "first_sample \<lparr>shape = [0, 3], elems = [], strides = [3, 1]\<rparr> [0, 3] = Inl RuntimeError"
  by code_simp

lemma first_sample_transposed:
  "first_sample \<lparr>shape = [2, 2], elems = [1, 3, 2, 4], strides = [1, 2]\<rparr> [] = Inl RuntimeError"
  by code_simp

lemma first_sample_permuted:
  "first_sample \<lparr>shape = [2, 3, 4], elems = map real [0..<24], strides = [4, 8, 1]\<rparr> [4]
     = Inl RuntimeError"
  by code_simp

section \<open>Properties of BDropout\<close>

lemma BDropout_forward_stored_mask:
  assumes "trailing_shape mask_dims (shape x) = shape (noise self)"
  shows "BDropout_forward self x False mask_dims g
           = (Inr \<lparr>shape = shape x,
                   elems = map (\<lambda>k. elems x ! k * elems (noise self) ! (k mod numel (noise self)))
                             [0..<numel x]\<rparr>, self, g)"
proof -
  obtain pre where pre: "shape x = pre @ shape (noise self)"
    using trailing_shape_suffix[of "shape x" mask_dims] assms by auto
  show ?thesis
    using assms by (simp add: BDropout_forward_def tensor_mul_suffix[OF pre])
qed

lemma BDropout_forward_fresh_mask:
  assumes "trailing_shape mask_dims (shape x) = shape (noise self)"
  shows "BDropout_forward self x True mask_dims g
           = (Inr \<lparr>shape = shape x,
                   elems = map (\<lambda>k. elems x ! k * (if g k < p_keep self then 1 else 0))
                             [0..<numel x]\<rparr>, self, \<lambda>k. g (k + numel x))"
proof -
  let ?m = "\<lparr>shape = shape x, elems = map (\<lambda>u. if u < p_keep self then 1 else 0)
                                          (map g [0..<numel x])\<rparr>"
  have "map (\<lambda>k. elems x ! k * elems ?m ! k) [0..<numel x]
        = map (\<lambda>k. elems x ! k * (if g k < p_keep self then 1 else 0)) [0..<numel x]"
    by (rule map_cong[OF refl]) simp
  then have "tensor_mul x ?m
        = Inr \<lparr>shape = shape x,
               elems = map (\<lambda>k. elems x ! k * (if g k < p_keep self then 1 else 0))
                         [0..<numel x]\<rparr>"
    using tensor_mul_same_shape[of ?m x] by simp
  then show ?thesis
    using assms by (simp add: BDropout_forward_def bernoulli_def draw_def numel_def)
qed

text \<open>
  Claim C4: let the trailing shape of \<open>x\<close> equal the shape of the stored mask. Then
  \<open>forward(x, resample=False)\<close> returns \<open>x\<close> times the stored mask, entry by entry (the
  mask repeated along the leading axes), and leaves the layer and the generator as they
  were, so the next such call meets the same mask; \<open>forward(x, resample=True)\<close> returns
  \<open>x\<close> times a mask of the shape of \<open>x\<close> whose entries are fresh Bernoulli draws with
  probability \<open>p\<close>, and leaves the layer, the stored mask included, as it was.
\<close>

theorem BDropout_forward_matching_shape:
  assumes "trailing_shape mask_dims (shape x) = shape (noise self)"
  shows "BDropout_forward self x False mask_dims g
           = (Inr \<lparr>shape = shape x,
                   elems = map (\<lambda>k. elems x ! k * elems (noise self) ! (k mod numel (noise self)))
                             [0..<numel x]\<rparr>, self, g)
       \<and> BDropout_forward self x True mask_dims g
           = (Inr \<lparr>shape = shape x,
                   elems = map (\<lambda>k. elems x ! k * (if g k < p_keep self then 1 else 0))
                             [0..<numel x]\<rparr>, self, \<lambda>k. g (k + numel x))"
  using BDropout_forward_stored_mask[OF assms] BDropout_forward_fresh_mask[OF assms] by simp

theorem BDropout_forward_matching_shape_witness:
  "BDropout_forward
      \<lparr>regularizer_scale = 1/2, rate = 1/2, p_keep = 1/2,
       noise = \<lparr>shape = [2], elems = [1, 0]\<rparr>, training = True\<rparr>
      \<lparr>shape = [2, 2], elems = [1, 2, 3, 4], strides = [2, 1]\<rparr> False 1 (\<lambda>k. if even k then 1/4 else 3/4)
     = (Inr \<lparr>shape = [2, 2], elems = [1, 0, 3, 0]\<rparr>,
        \<lparr>regularizer_scale = 1/2, rate = 1/2, p_keep = 1/2,
         noise = \<lparr>shape = [2], elems = [1, 0]\<rparr>, training = True\<rparr>,
        \<lambda>k. if even k then 1/4 else 3/4)
   \<and> fst (BDropout_forward
      \<lparr>regularizer_scale = 1/2, rate = 1/2, p_keep = 1/2,
       noise = \<lparr>shape = [2], elems = [1, 0]\<rparr>, training = True\<rparr>
      \<lparr>shape = [2, 2], elems = [1, 2, 3, 4], strides = [2, 1]\<rparr> True 1 (\<lambda>k. if even k then 1/4 else 3/4))
     = Inr \<lparr>shape = [2, 2], elems = [1, 0, 3, 0]\<rparr>
   \<and> fst (snd (BDropout_forward
      \<lparr>regularizer_scale = 1/2, rate = 1/2, p_keep = 1/2,
       noise = \<lparr>shape = [2], elems = [1, 0]\<rparr>, training = True\<rparr>
      \<lparr>shape = [2, 2], elems = [1, 2, 3, 4], strides = [2, 1]\<rparr> True 1 (\<lambda>k. if even k then 1/4 else 3/4)))
     = \<lparr>regularizer_scale = 1/2, rate = 1/2, p_keep = 1/2,
         noise = \<lparr>shape = [2], elems = [1, 0]\<rparr>, training = True\<rparr>"
proof -
  let ?self = "\<lparr>regularizer_scale = 1/2, rate = 1/2, p_keep = 1/2,
       noise = \<lparr>shape = [2], elems = [1, 0]\<rparr>, training = True\<rparr>"
  let ?x = "\<lparr>shape = [2, 2], elems = [1, 2, 3, 4], strides = [2, 1]\<rparr>"
  have h: "trailing_shape 1 (shape ?x) = shape (noise ?self)"
    by (simp add: trailing_shape_def)
  have n: "[0..<numel ?x] = [0, 1, 2, 3]" by (simp add: numel_def upt_rec)
  show ?thesis
    using BDropout_forward_matching_shape[OF h, of "\<lambda>k. if even k then 1/4 else 3/4"]
    unfolding n by (simp add: numel_def)
qed

section \<open>Shape mismatch in BDropout and CDropout\<close>

text \<open>
  \<open>BDropout.forward\<close> on an input whose trailing shape is not the shape of the stored
  mask, when the input has a first sample: the stored mask is drawn anew in the trailing
  shape and the output is the input times the new stored mask, whatever \<open>resample\<close> is.
\<close>

lemma BDropout_forward_regenerates:
  assumes "trailing_shape mask_dims (shape x) \<noteq> shape (noise self)"
    and "first_sample x (trailing_shape mask_dims (shape x)) = Inr sample"
  shows "BDropout_forward self x resample mask_dims g
           = (tensor_mul x (fst (bernoulli (1 - rate self) (trailing_shape mask_dims (shape x)) g)),
              self\<lparr>p_keep := 1 - rate self,
                   noise := fst (bernoulli (1 - rate self) (trailing_shape mask_dims (shape x)) g)\<rparr>,
              snd (bernoulli (1 - rate self) (trailing_shape mask_dims (shape x)) g))"
proof -
  have "shape sample = trailing_shape mask_dims (shape x)"
    using assms(2) by (auto simp: first_sample_def ebind_def split: sum.splits if_splits)
  then show ?thesis
    using assms
    by (simp add: BDropout_forward_def BDropout_update_noise_def Let_def split: prod.splits)
qed

text \<open>
  \<open>CDropout.forward\<close> with \<open>resample=True\<close>, on any input: the shape is not looked at;
  base noise of the shape of the whole input is drawn and not stored, the relaxed mask
  made from it is stored, and the stored base noise stays.
\<close>

lemma CDropout_forward_resample:
  "CDropout_forward self x True mask_dims g
     = (tensor_mul x \<lparr>shape = shape x,
                      elems = map (concrete_value (logit_p self) (temp self))
                                (map g [0..<numel x])\<rparr>,
        self\<lparr>p_keep := sigmoid (logit_p self),
             concrete_noise :=
               Some \<lparr>shape = shape x,
                     elems = map (concrete_value (logit_p self) (temp self))
                               (map g [0..<numel x])\<rparr>\<rparr>,
        \<lambda>k. g (k + numel x))"
  by (simp add: CDropout_forward_def CDropout_pick_noise_def rand_def draw_def numel_def
      CDropout_update_concrete_noise_def)

text \<open>
  Claim C5 says that in both layers a trailing shape other than the stored one makes
  \<open>forward\<close> regenerate the stored mask to the new shape before the resample logic,
  whatever \<open>resample\<close> is. \<open>BDropout\<close> does so; \<open>CDropout\<close> tests \<open>resample\<close> first.
  A \<open>CDropout\<close> layer as its constructor leaves it (rate 0.5, temperature 0.1, scalar
  base noise, no relaxed mask) receives a tensor of ones of shape \<open>[2, 2, 2]\<close>, whose
  trailing shape is \<open>[2, 2]\<close>, with \<open>resample=True\<close>; the generator hands out 1/2. The
  stored base noise is still the scalar of the constructor, and the relaxed mask that is
  stored has the shape \<open>[2, 2, 2]\<close> of the whole input. A \<open>BDropout\<close> layer out of its
  constructor, on the same input with \<open>resample=True\<close> (the generator hands out 1/4),
  stores a mask of the trailing shape \<open>[2, 2]\<close> and multiplies by it.
\<close>

theorem CDropout_forward_resample_skips_regeneration:
  "(case CDropout_init (1/2) 1 (1/10) (\<lambda>k. 1/2) of
      (c, g1) \<Rightarrow>
        (case CDropout_forward c
                \<lparr>shape = [2, 2, 2], elems = [1, 1, 1, 1, 1, 1, 1, 1], strides = [4, 2, 1]\<rparr>
                True 2 g1 of
           (out, c1, g2) \<Rightarrow>
             trailing_shape 2 [2, 2, 2] = [2, 2]
           \<and> noise c = \<lparr>shape = [], elems = [0]\<rparr>
           \<and> concrete_noise c = None
           \<and> out = Inr \<lparr>shape = [2, 2, 2],
                        elems = [1/2, 1/2, 1/2, 1/2, 1/2, 1/2, 1/2, 1/2]\<rparr>
           \<and> noise c1 = \<lparr>shape = [], elems = [0]\<rparr>
           \<and> concrete_noise c1
               = Some \<lparr>shape = [2, 2, 2],
                       elems = [1/2, 1/2, 1/2, 1/2, 1/2, 1/2, 1/2, 1/2]\<rparr>))
   \<and> (case BDropout_init (1/2) 1 (\<lambda>k. 1/4) of
      (b, g1) \<Rightarrow>
        (case BDropout_forward b
                \<lparr>shape = [2, 2, 2], elems = [1, 1, 1, 1, 1, 1, 1, 1], strides = [4, 2, 1]\<rparr>
                True 2 g1 of
           (out, b1, g2) \<Rightarrow>
             noise b = \<lparr>shape = [], elems = [1]\<rparr>
           \<and> out = Inr \<lparr>shape = [2, 2, 2], elems = [1, 1, 1, 1, 1, 1, 1, 1]\<rparr>
           \<and> noise b1 = \<lparr>shape = [2, 2], elems = [1, 1, 1, 1]\<rparr>))"
proof -
  define x :: strided
    where "x = \<lparr>shape = [2, 2, 2], elems = [1, 1, 1, 1, 1, 1, 1, 1], strides = [4, 2, 1]\<rparr>"
  let ?c = "\<lparr>regularizer_scale = 1/2, rate = 1/2, p_keep = 1/2,
             noise = \<lparr>shape = [], elems = [0]\<rparr>, training = True,
             temp = 1/10, logit_p = 0, concrete_noise = None\<rparr>"
  let ?b = "\<lparr>regularizer_scale = 1/2, rate = 1/2, p_keep = 1/2,
             noise = \<lparr>shape = [], elems = [1]\<rparr>, training = True\<rparr>"
  let ?h = "\<lparr>shape = [2, 2, 2], elems = [1/2, 1/2, 1/2, 1/2, 1/2, 1/2, 1/2, 1/2]\<rparr>"
  have sx: "shape x = [2, 2, 2]" and ex: "elems x = [1, 1, 1, 1, 1, 1, 1, 1]"
    by (simp_all add: x_def)
  have nx: "numel x = 8" by (simp add: numel_def sx)
  have t: "trailing_shape 2 [2, 2, 2] = [2, 2]" by (simp add: trailing_shape_def)
  have ci: "CDropout_init (1/2) 1 (1/10) (\<lambda>k. 1/2) = (?c, \<lambda>k. 1/2)"
    by (simp add: CDropout_init_def BDropout_init_def bernoulli_def draw_def)
  have full: "tensor_mul x ?h = Inr ?h"
    using tensor_mul_same_shape[of ?h x] unfolding nx map_upt_8 by (simp add: sx ex)
  have cf: "CDropout_forward ?c x True 2 (\<lambda>k. 1/2)
              = (Inr ?h, ?c\<lparr>p_keep := sigmoid 0, concrete_noise := Some ?h\<rparr>, \<lambda>k. 1/2)"
    unfolding CDropout_forward_resample nx map_upt_8
    by (simp add: sx concrete_value_half full)
  have bi: "BDropout_init (1/2) 1 (\<lambda>k. 1/4) = (?b, \<lambda>k. 1/4)"
    by (simp add: BDropout_init_def bernoulli_def draw_def)
  have fs: "first_sample x (trailing_shape 2 (shape x))
              = Inr \<lparr>shape = [2, 2], elems = [1, 1, 1, 1]\<rparr>"
    unfolding x_def by code_simp
  have mm: "trailing_shape 2 (shape x) \<noteq> shape (noise ?b)"
    by (simp add: sx t)
  have bn: "bernoulli (1 - rate ?b) (trailing_shape 2 (shape x)) (\<lambda>k. 1/4)
              = (\<lparr>shape = [2, 2], elems = [1, 1, 1, 1]\<rparr>, \<lambda>k. 1/4)"
  proof -
    have "prod_list [2, 2 :: nat] = 4" by simp
    then show ?thesis
      unfolding sx t bernoulli_def draw_def by (simp add: map_upt_4)
  qed
  have part: "tensor_mul x \<lparr>shape = [2, 2], elems = [1, 1, 1, 1]\<rparr>
                = Inr \<lparr>shape = [2, 2, 2], elems = [1, 1, 1, 1, 1, 1, 1, 1]\<rparr>"
    using tensor_mul_suffix[of x "[2]" "\<lparr>shape = [2, 2], elems = [1, 1, 1, 1]\<rparr>"]
    unfolding nx map_upt_8 by (simp add: sx ex numel_def)
  have bf: "BDropout_forward ?b x True 2 (\<lambda>k. 1/4)
              = (Inr \<lparr>shape = [2, 2, 2], elems = [1, 1, 1, 1, 1, 1, 1, 1]\<rparr>,
                 ?b\<lparr>noise := \<lparr>shape = [2, 2], elems = [1, 1, 1, 1]\<rparr>\<rparr>, \<lambda>k. 1/4)"
    unfolding BDropout_forward_regenerates[OF mm fs] bn by (simp add: part)
  show ?thesis
    unfolding x_def[symmetric] ci bi prod.case cf bf by (simp add: t)
qed

section \<open>Properties of BSequential\<close>

lemma first_affine_filter:
  "first_affine ms = (case filter is_affine ms of [] \<Rightarrow> None | a # _ \<Rightarrow> Some (affine_params a))"
  by (induction ms rule: first_affine.induct) (simp_all add: is_affine_def affine_params_def)

lemma module_penalty_value:
  "fst (module_penalty m (first_affine (m # rest))) = paired_contribution (m # rest) 0"
proof (cases m)
  case (BDrop l)
  then show ?thesis
    by (auto simp: paired_contribution_def has_weights_regularizer_def is_affine_def
        first_affine_filter[of rest] weights_penalty_def biases_penalty_def
        BDropout_weights_regularizer_def biases_regularizer_def Let_def
        split: list.splits option.splits prod.splits)
next
  case (CDrop l)
  then show ?thesis
    by (auto simp: paired_contribution_def has_weights_regularizer_def is_affine_def
        first_affine_filter[of rest] weights_penalty_def biases_penalty_def
        biases_regularizer_def
        split: list.splits option.splits prod.splits)
qed (simp_all add: paired_contribution_def has_weights_regularizer_def)

lemma paired_contribution_Cons:
  "paired_contribution (m # rest) (Suc i) = paired_contribution rest i"
  by (simp add: paired_contribution_def split: list.splits prod.splits option.splits)

lemma paired_sum_Cons:
  "paired_sum (m # rest) = paired_contribution (m # rest) 0 + paired_sum rest"
proof -
  have "[0..<length (m # rest)] = 0 # map Suc [0..<length rest]"
    by (simp add: upt_conv_Cons map_Suc_upt del: upt_Suc)
  then show ?thesis
    by (simp add: paired_sum_def paired_contribution_Cons comp_def del: upt_Suc)
qed

lemma regularization_loop_sum:
  "fst (regularization_loop ms acc) = acc + paired_sum ms"
proof (induction ms arbitrary: acc)
  case Nil
  show ?case by (simp add: paired_sum_def)
next
  case (Cons m rest)
  obtain pen m1 where p: "module_penalty m (first_affine (m # rest)) = (pen, m1)"
    by (cases "module_penalty m (first_affine (m # rest))")
  then have pen: "pen = paired_contribution (m # rest) 0"
    using module_penalty_value[of m rest] by simp
  have "fst (regularization_loop (m # rest) acc) = fst (regularization_loop rest (acc + pen))"
    using p by (simp split: prod.splits)
  also have "\<dots> = acc + pen + paired_sum rest" by (rule Cons.IH)
  finally show ?case by (simp add: pen paired_sum_Cons)
qed

lemma paired_sum_no_regularizer:
  "paired_sum (filter (\<lambda>m. \<not> has_weights_regularizer m) ms) = 0"
proof -
  let ?fs = "filter (\<lambda>m. \<not> has_weights_regularizer m) ms"
  have "paired_contribution ?fs i = 0" if "i < length ?fs" for i
  proof -
    from that have "?fs ! i \<in> set ?fs" by (rule nth_mem)
    then have "\<not> has_weights_regularizer (?fs ! i)" by simp
    then show ?thesis by (simp add: paired_contribution_def)
  qed
  then have eq: "map (paired_contribution ?fs) [0..<length ?fs] = map (\<lambda>i. 0) [0..<length ?fs]"
    by (intro map_cong[OF refl]) simp
  show ?thesis unfolding paired_sum_def eq by simp
qed

text \<open>
  Claim C6: \<open>regularization_loss\<close> is the sum, over the modules with a weight
  regularizer, of the weight regularizer (plus the bias regularizer when the bias is not
  \<open>None\<close>) on the parameters of the first \<open>Linear\<close> or convolution that follows;
  a module without such a layer contributes zero (\<open>paired_contribution\<close>), and a
  sequence without stochastic layers, which is any sequence that equals its own
  restriction to the other modules, gives exactly zero.
\<close>

theorem regularization_loss_pairs:
  "regularization_loss modules = paired_sum modules
   \<and> regularization_loss (filter (\<lambda>m. \<not> has_weights_regularizer m) modules) = 0"
  by (simp add: regularization_loss_def regularization_loop_sum paired_sum_no_regularizer)

lemma regularization_loss_example:
  "regularization_loss
     [BDrop \<lparr>regularizer_scale = 1/2, rate = 1/2, p_keep = 1/2,
             noise = \<lparr>shape = [], elems = [1]\<rparr>, training = True\<rparr>,
      Plain, Linear [2, 4] (Some [1]), 
      BDrop \<lparr>regularizer_scale = 1/2, rate = 1/2, p_keep = 1/2,
             noise = \<lparr>shape = [], elems = [1]\<rparr>, training = True\<rparr>,
      Linear [2] None,
      BDrop \<lparr>regularizer_scale = 1/2, rate = 1/2, p_keep = 1/2,
             noise = \<lparr>shape = [], elems = [1]\<rparr>, training = True\<rparr>] = 13/2"
  by (simp add: regularization_loss_def BDropout_weights_regularizer_def biases_regularizer_def)


section \<open>Consecutive calls of forward\<close>

text \<open>
  A \<open>BDropout\<close> layer in any state gives the same output on two consecutive calls of
  \<open>forward(x, resample=False)\<close>: the first call leaves a stored mask of the trailing
  shape of \<open>x\<close>, which the second call finds and uses.
\<close>

lemma BDropout_forward_twice_same:
  assumes first: "BDropout_forward self x False mask_dims g = (out1, self1, g1)"
    and second: "BDropout_forward self1 x False mask_dims g1 = (out2, self2, g2)"
  shows "out1 = out2"
proof (cases "trailing_shape mask_dims (shape x) = shape (noise self)")
  case True
  with first have "self1 = self" and "out1 = tensor_mul x (noise self)"
    by (auto simp: BDropout_forward_def)
  with True second show ?thesis by (auto simp: BDropout_forward_def)
next
  case mismatch: False
  show ?thesis
  proof (cases "first_sample x (trailing_shape mask_dims (shape x))")
    case (Inl e)
    with mismatch first have "self1 = self" and "out1 = Inl e"
      by (auto simp: BDropout_forward_def)
    with Inl mismatch second show ?thesis
      by (auto simp: BDropout_forward_def)
  next
    case (Inr sample)
    let ?n = "fst (bernoulli (1 - rate self) (trailing_shape mask_dims (shape x)) g)"
    from first BDropout_forward_regenerates[OF mismatch Inr, of False g]
    have o1: "out1 = tensor_mul x ?n" and s1: "noise self1 = ?n" by auto
    have "shape (noise self1) = trailing_shape mask_dims (shape x)"
      unfolding s1 by simp
    with second s1 have "out2 = tensor_mul x ?n"
      by (auto simp: BDropout_forward_def)
    with o1 show ?thesis by simp
  qed
qed

lemma rand_2_2:
  "rand [2, 2] g = (\<lparr>shape = [2, 2], elems = [g 0, g 1, g 2, g 3]\<rparr>, \<lambda>k. g (k + 4))"
proof -
  have "prod_list [2, 2 :: nat] = 4" by simp
  then show ?thesis unfolding rand_def draw_def by (simp only: map_upt_4 prod.case)
qed

text \<open>
  Claim C7 on \<open>CDropout\<close>. A layer is built with rate 0.5 and temperature 0.1 (so
  \<open>logit_p = 0\<close>) and stays in training mode; the input is a 2 by 2 tensor of ones.
  The generator hands out 1/2 except for its tenth variate, 1/4. The calls are:
  \<open>forward(x, resample=True)\<close>, which stores a relaxed mask of shape \<open>[2, 2]\<close> and
  leaves the scalar base noise; \<open>resample()\<close>, which redraws the scalar base noise;
  then \<open>forward(x, resample=False)\<close> twice. The first of the two sees a relaxed mask
  of the right shape, recomputes it from the scalar base noise and returns \<open>x\<close> times
  one number; the second sees a scalar relaxed mask, regenerates the base noise and
  returns \<open>x\<close> times four fresh numbers. The two outputs differ.
\<close>

theorem CDropout_forward_twice_differs:
  "(case CDropout_init (1/2) 1 (1/10) (\<lambda>k. if k = 9 then 1/4 else 1/2) of (l0, g1) \<Rightarrow>
    case CDropout_forward l0 \<lparr>shape = [2, 2], elems = [1, 1, 1, 1], strides = [2, 1]\<rparr> True 2 g1 of (out0, l1, g2) \<Rightarrow>
    case CDropout_resample l1 g2 of (l2, g3) \<Rightarrow>
    case CDropout_forward l2 \<lparr>shape = [2, 2], elems = [1, 1, 1, 1], strides = [2, 1]\<rparr> False 2 g3 of (out1, l3, g4) \<Rightarrow>
    case CDropout_forward l3 \<lparr>shape = [2, 2], elems = [1, 1, 1, 1], strides = [2, 1]\<rparr> False 2 g4 of (out2, l4, g5) \<Rightarrow>
      out1 = Inr \<lparr>shape = [2, 2], elems = [1/2, 1/2, 1/2, 1/2]\<rparr>
    \<and> out2 = Inr \<lparr>shape = [2, 2], elems = [1/2, 1/2, 1/2, concrete_value 0 (1/10) (1/4)]\<rparr>
    \<and> out1 \<noteq> out2)"
proof -
  define x :: strided where "x = \<lparr>shape = [2, 2], elems = [1, 1, 1, 1], strides = [2, 1]\<rparr>"
  let ?g = "\<lambda>k :: nat. if k = 9 then 1/4 else 1/2 :: real"
  let ?l0 = "\<lparr>regularizer_scale = 1/2, rate = 1/2, p_keep = 1/2,
              noise = \<lparr>shape = [], elems = [0]\<rparr>, training = True,
              temp = 1/10, logit_p = 0, concrete_noise = None\<rparr>"
  let ?c1 = "\<lparr>shape = [2, 2], elems = [1/2, 1/2, 1/2, 1/2]\<rparr>"
  let ?l1 = "?l0\<lparr>p_keep := sigmoid 0, concrete_noise := Some ?c1\<rparr>"
  let ?l2 = "?l1\<lparr>noise := \<lparr>shape = [], elems = [1/2]\<rparr>\<rparr>"
  let ?l3 = "?l2\<lparr>concrete_noise := Some \<lparr>shape = [], elems = [1/2]\<rparr>\<rparr>"
  have sx: "shape x = [2, 2]" and ex: "elems x = [1, 1, 1, 1]" by (simp_all add: x_def)
  have nx: "numel x = 4" by (simp add: numel_def sx)
  have ones_times_scalar:
    "tensor_mul x \<lparr>shape = [], elems = [a]\<rparr> = Inr \<lparr>shape = [2, 2], elems = [a, a, a, a]\<rparr>" for a
    using tensor_mul_suffix[of x "[2, 2]" "\<lparr>shape = [], elems = [a]\<rparr>"]
    unfolding nx map_upt_4 by (simp add: sx ex numel_def)
  have ones_times_full:
    "tensor_mul x \<lparr>shape = [2, 2], elems = [a, b, c, d]\<rparr>
       = Inr \<lparr>shape = [2, 2], elems = [a, b, c, d]\<rparr>" for a b c d
    using tensor_mul_same_shape[of "\<lparr>shape = [2, 2], elems = [a, b, c, d]\<rparr>" x]
    unfolding nx map_upt_4 by (simp add: sx ex)
  have fs: "first_sample x [2, 2] = Inr \<lparr>shape = [2, 2], elems = [1, 1, 1, 1]\<rparr>"
    unfolding x_def by code_simp
  have s0: "CDropout_init (1/2) 1 (1/10) ?g = (?l0, \<lambda>k. ?g (k + 1))"
    by (simp add: CDropout_init_def BDropout_init_def bernoulli_def draw_one)
  have s1: "CDropout_forward ?l0 x True 2 (\<lambda>k. ?g (k + 1)) = (Inr ?c1, ?l1, \<lambda>k. ?g (k + 5))"
    by (simp add: CDropout_forward_def CDropout_pick_noise_def sx rand_2_2
        CDropout_update_concrete_noise_def concrete_value_half ones_times_full add.commute)
  have s2: "CDropout_resample ?l1 (\<lambda>k. ?g (k + 5)) = (?l2, \<lambda>k. ?g (k + 6))"
    by (simp add: CDropout_resample_def CDropout_update_noise_def rand_scalar)
  have s3: "CDropout_forward ?l2 x False 2 (\<lambda>k. ?g (k + 6)) = (Inr ?c1, ?l3, \<lambda>k. ?g (k + 6))"
    by (simp add: CDropout_forward_def CDropout_pick_noise_def trailing_shape_def sx
        CDropout_update_concrete_noise_def concrete_value_half ones_times_scalar)
  have s4: "fst (CDropout_forward ?l3 x False 2 (\<lambda>k. ?g (k + 6)))
              = Inr \<lparr>shape = [2, 2], elems = [1/2, 1/2, 1/2, concrete_value 0 (1/10) (1/4)]\<rparr>"
    by (simp add: CDropout_forward_def CDropout_pick_noise_def trailing_shape_def sx fs
        CDropout_update_noise_def rand_2_2 Let_def
        CDropout_update_concrete_noise_def concrete_value_half ones_times_full)
  show ?thesis
    using s4 concrete_value_quarter unfolding x_def[symmetric] s0 s1 s2 s3 prod.case
    by (auto split: prod.splits)
qed

section \<open>Default arguments\<close>

text \<open>
  \<open>CDropout.forward\<close> with \<open>resample=False\<close> when the stored relaxed mask has the
  trailing shape of the input: nothing is drawn. In training mode the relaxed mask is
  computed again from the stored base noise and stored; in evaluation mode the stored
  relaxed mask is used as it is.
\<close>

lemma CDropout_forward_stored_noise:
  assumes "concrete_noise c = Some m" and "shape m = trailing_shape mask_dims (shape x)"
  shows "CDropout_forward c x False mask_dims g
           = (if training c
              then (tensor_mul x \<lparr>shape = shape (noise c),
                                   elems = map (concrete_value (logit_p c) (temp c))
                                             (elems (noise c))\<rparr>,
                    c\<lparr>p_keep := sigmoid (logit_p c),
                      concrete_noise :=
                        Some \<lparr>shape = shape (noise c),
                              elems = map (concrete_value (logit_p c) (temp c))
                                        (elems (noise c))\<rparr>\<rparr>,
                    g)
              else (tensor_mul x m, c, g))"
proof -
  have pick: "CDropout_pick_noise c x False mask_dims g = Inr (noise c, False, c, g)"
    using assms by (simp add: CDropout_pick_noise_def)
  show ?thesis
    unfolding CDropout_forward_def pick
    by (simp add: Let_def CDropout_update_concrete_noise_def assms(1))
qed

lemma Policy_kwargs_default:
  assumes "kw ''resample'' = None"
  shows "Policy_kwargs kw = kw(''resample'' \<mapsto> PyBool True)"
  using assms by (simp add: Policy_kwargs_def)

lemma Policy_kwargs_given:
  assumes "kw ''resample'' = Some v"
  shows "Policy_kwargs kw = kw"
  using assms by (auto simp: Policy_kwargs_def)

text \<open>
  Claim C10: a call of \<open>BDropout.forward\<close> without \<open>resample\<close> is a call with
  \<open>resample=True\<close>, so for an input whose trailing shape matches the stored mask it
  multiplies by fresh Bernoulli draws and keeps the layer. A call of
  \<open>CDropout.forward\<close> without \<open>resample\<close> is a call with \<open>resample=False\<close>, so
  when the relaxed mask has the trailing shape of the input no variate is drawn: in
  training mode the output is the input times the relaxed mask computed from the stored
  base noise, in evaluation mode the input times the stored relaxed mask.
  \<open>Policy.forward\<close> called without \<open>resample\<close> behaves as with \<open>resample=True\<close> and
  hands its model the keyword arguments with \<open>resample=True\<close> added.
\<close>

theorem default_resample_arguments:
  "BDropout_call b x None md g = BDropout_call b x (Some True) md g
   \<and> (trailing_shape (case md of None \<Rightarrow> 2 | Some d \<Rightarrow> d) (shape x) = shape (noise b) \<longrightarrow>
        BDropout_call b x None md g
          = (Inr \<lparr>shape = shape x,
                  elems = map (\<lambda>k. elems x ! k * (if g k < p_keep b then 1 else 0))
                            [0..<numel x]\<rparr>, b, \<lambda>k. g (k + numel x)))
   \<and> CDropout_call c x None md g = CDropout_call c x (Some False) md g
   \<and> (concrete_noise c = Some m
        \<and> shape m = trailing_shape (case md of None \<Rightarrow> 2 | Some d \<Rightarrow> d) (shape x) \<longrightarrow>
        CDropout_call c x None md g
          = (if training c
             then (tensor_mul x \<lparr>shape = shape (noise c),
                                  elems = map (concrete_value (logit_p c) (temp c))
                                            (elems (noise c))\<rparr>,
                   c\<lparr>p_keep := sigmoid (logit_p c),
                     concrete_noise :=
                       Some \<lparr>shape = shape (noise c),
                             elems = map (concrete_value (logit_p c) (temp c))
                                       (elems (noise c))\<rparr>\<rparr>,
                   g)
             else (tensor_mul x m, c, g)))
   \<and> (kw ''resample'' = None \<longrightarrow>
        Policy_forward to_complex model pol xin kw s
          = Policy_forward to_complex model pol xin (kw(''resample'' \<mapsto> PyBool True)) s
      \<and> snd (Policy_forward to_complex model pol xin kw s)
          = snd (model (to_complex (payload xin)) (kw(''resample'' \<mapsto> PyBool True)) s))"
proof (intro conjI impI)
  show "BDropout_call b x None md g = BDropout_call b x (Some True) md g"
    by (simp add: BDropout_call_def)
next
  assume "trailing_shape (case md of None \<Rightarrow> 2 | Some d \<Rightarrow> d) (shape x) = shape (noise b)"
  from BDropout_forward_fresh_mask[OF this]
  show "BDropout_call b x None md g
          = (Inr \<lparr>shape = shape x,
                  elems = map (\<lambda>k. elems x ! k * (if g k < p_keep b then 1 else 0))
                            [0..<numel x]\<rparr>, b, \<lambda>k. g (k + numel x))"
    by (simp add: BDropout_call_def)
next
  show "CDropout_call c x None md g = CDropout_call c x (Some False) md g"
    by (simp add: CDropout_call_def)
next
  assume "concrete_noise c = Some m
        \<and> shape m = trailing_shape (case md of None \<Rightarrow> 2 | Some d \<Rightarrow> d) (shape x)"
  then have "concrete_noise c = Some m"
    and "shape m = trailing_shape (case md of None \<Rightarrow> 2 | Some d \<Rightarrow> d) (shape x)"
    by simp_all
  from CDropout_forward_stored_noise[OF this]
  show "CDropout_call c x None md g
          = (if training c
             then (tensor_mul x \<lparr>shape = shape (noise c),
                                  elems = map (concrete_value (logit_p c) (temp c))
                                            (elems (noise c))\<rparr>,
                   c\<lparr>p_keep := sigmoid (logit_p c),
                     concrete_noise :=
                       Some \<lparr>shape = shape (noise c),
                             elems = map (concrete_value (logit_p c) (temp c))
                                       (elems (noise c))\<rparr>\<rparr>,
                   g)
             else (tensor_mul x m, c, g))"
    by (simp add: CDropout_call_def)
next
  assume kw: "kw ''resample'' = None"
  have eq: "Policy_kwargs (kw(''resample'' \<mapsto> PyBool True)) = Policy_kwargs kw"
    using kw by (simp add: Policy_kwargs_def)
  show "Policy_forward to_complex model pol xin kw s
          = Policy_forward to_complex model pol xin (kw(''resample'' \<mapsto> PyBool True)) s"
    by (simp add: Policy_forward_def eq)
  show "snd (Policy_forward to_complex model pol xin kw s)
          = snd (model (to_complex (payload xin)) (kw(''resample'' \<mapsto> PyBool True)) s)"
    by (simp add: Policy_forward_def Policy_kwargs_default[of kw, OF kw] Let_def
        split: prod.splits)
qed

theorem default_resample_arguments_witness:
  "BDropout_call
      \<lparr>regularizer_scale = 1/2, rate = 1/2, p_keep = 1/2,
       noise = \<lparr>shape = [2], elems = [1, 0]\<rparr>, training = True\<rparr>
      \<lparr>shape = [2], elems = [3, 4], strides = [1]\<rparr> None None (\<lambda>k. 1/4)
     = (Inr \<lparr>shape = [2], elems = [3, 4]\<rparr>,
        \<lparr>regularizer_scale = 1/2, rate = 1/2, p_keep = 1/2,
         noise = \<lparr>shape = [2], elems = [1, 0]\<rparr>, training = True\<rparr>,
        \<lambda>k. 1/4)
   \<and> CDropout_call
        \<lparr>regularizer_scale = 1/2, rate = 1/2, p_keep = 1/2,
         noise = \<lparr>shape = [2], elems = [1/2, 0]\<rparr>, training = True,
         temp = 1/10, logit_p = 0,
         concrete_noise = Some \<lparr>shape = [2], elems = [1, 1]\<rparr>\<rparr>
        \<lparr>shape = [2], elems = [3, 4], strides = [1]\<rparr> None None (\<lambda>k. 1/4)
     = (Inr \<lparr>shape = [2], elems = [3/2, 0]\<rparr>,
        \<lparr>regularizer_scale = 1/2, rate = 1/2, p_keep = 1/2,
         noise = \<lparr>shape = [2], elems = [1/2, 0]\<rparr>, training = True,
         temp = 1/10, logit_p = 0,
         concrete_noise = Some \<lparr>shape = [2], elems = [1/2, 0]\<rparr>\<rparr>,
        \<lambda>k. 1/4)
   \<and> CDropout_call
        \<lparr>regularizer_scale = 1/2, rate = 1/2, p_keep = 1/2,
         noise = \<lparr>shape = [2], elems = [1/2, 0]\<rparr>, training = False,
         temp = 1/10, logit_p = 0,
         concrete_noise = Some \<lparr>shape = [2], elems = [1, 1/4]\<rparr>\<rparr>
        \<lparr>shape = [2], elems = [3, 4], strides = [1]\<rparr> None None (\<lambda>k. 1/4)
     = (Inr \<lparr>shape = [2], elems = [3, 1]\<rparr>,
        \<lparr>regularizer_scale = 1/2, rate = 1/2, p_keep = 1/2,
         noise = \<lparr>shape = [2], elems = [1/2, 0]\<rparr>, training = False,
         temp = 1/10, logit_p = 0,
         concrete_noise = Some \<lparr>shape = [2], elems = [1, 1/4]\<rparr>\<rparr>,
        \<lambda>k. 1/4)
   \<and> snd (Policy_forward (\<lambda>t. t)
             (\<lambda>t kw n. (Inr t, if kw ''resample'' = Some (PyBool True) then Suc n else n))
             \<lparr>pol_scale = \<lparr>shape = [], elems = [2]\<rparr>, pol_bias = \<lparr>shape = [], elems = [1]\<rparr>\<rparr>
             (TorchTensor \<lparr>shape = [2], elems = [3, 4]\<rparr>) Map.empty 0) = Suc 0"
proof -
  define x :: strided where "x = \<lparr>shape = [2], elems = [3, 4], strides = [1]\<rparr>"
  let ?xt = "\<lparr>shape = [2], elems = [3, 4]\<rparr>"
  let ?b = "\<lparr>regularizer_scale = 1/2, rate = 1/2, p_keep = 1/2,
       noise = \<lparr>shape = [2], elems = [1, 0]\<rparr>, training = True\<rparr>"
  let ?ct = "\<lparr>regularizer_scale = 1/2, rate = 1/2, p_keep = 1/2,
         noise = \<lparr>shape = [2], elems = [1/2, 0]\<rparr>, training = True,
         temp = 1/10, logit_p = 0,
         concrete_noise = Some \<lparr>shape = [2], elems = [1, 1]\<rparr>\<rparr>"
  let ?ce = "\<lparr>regularizer_scale = 1/2, rate = 1/2, p_keep = 1/2,
         noise = \<lparr>shape = [2], elems = [1/2, 0]\<rparr>, training = False,
         temp = 1/10, logit_p = 0,
         concrete_noise = Some \<lparr>shape = [2], elems = [1, 1/4]\<rparr>\<rparr>"
  let ?model = "\<lambda>(t :: tensor) (kw :: kwargs) (n :: nat).
                  (Inr t :: error + tensor, if kw ''resample'' = Some (PyBool True) then Suc n else n)"
  let ?pol = "\<lparr>pol_scale = \<lparr>shape = [], elems = [2]\<rparr>, pol_bias = \<lparr>shape = [], elems = [1]\<rparr>\<rparr>"
  note train = default_resample_arguments[where b = ?b and x = x and md = None
      and g = "\<lambda>k. 1/4" and c = ?ct and m = "\<lparr>shape = [2], elems = [1, 1]\<rparr>"
      and kw = Map.empty and to_complex = "\<lambda>t. t"
      and model = ?model and pol = ?pol and xin = "TorchTensor ?xt" and s = 0]
  note eval = default_resample_arguments[where b = ?b and x = x and md = None
      and g = "\<lambda>k. 1/4" and c = ?ce and m = "\<lparr>shape = [2], elems = [1, 1/4]\<rparr>"
      and kw = Map.empty and to_complex = "\<lambda>t. t"
      and model = ?model and pol = ?pol and xin = "TorchTensor ?xt" and s = 0]
  have sx: "shape x = [2]" and ex: "elems x = [3, 4]" by (simp_all add: x_def)
  have t: "trailing_shape (case None of None \<Rightarrow> 2 | Some d \<Rightarrow> d) (shape x) = [2]"
    by (simp add: sx trailing_shape_def)
  have p1: "trailing_shape (case None of None \<Rightarrow> 2 | Some d \<Rightarrow> d) (shape x) = shape (noise ?b)"
    unfolding t by simp
  have p2: "concrete_noise ?ct = Some \<lparr>shape = [2], elems = [1, 1]\<rparr>
        \<and> shape \<lparr>shape = [2], elems = [1, 1]\<rparr>
            = trailing_shape (case None of None \<Rightarrow> 2 | Some d \<Rightarrow> d) (shape x)"
    unfolding t by simp
  have p2e: "concrete_noise ?ce = Some \<lparr>shape = [2], elems = [1, 1/4]\<rparr>
        \<and> shape \<lparr>shape = [2], elems = [1, 1/4]\<rparr>
            = trailing_shape (case None of None \<Rightarrow> 2 | Some d \<Rightarrow> d) (shape x)"
    unfolding t by simp
  have p3: "(Map.empty :: kwargs) ''resample'' = None" by simp
  have n: "[0..<numel x] = [0, 1]" by (simp add: numel_def sx upt_rec)
  have mul: "tensor_mul x \<lparr>shape = [2], elems = [a, b]\<rparr> = Inr \<lparr>shape = [2], elems = [3 * a, 4 * b]\<rparr>"
    for a b
    using tensor_mul_same_shape[of "\<lparr>shape = [2], elems = [a, b]\<rparr>" x] unfolding n
    by (simp add: sx ex)
  have r1: "BDropout_call ?b x None None (\<lambda>k. 1/4) = (Inr \<lparr>shape = [2], elems = [3, 4]\<rparr>, ?b, \<lambda>k. 1/4)"
    using train[THEN conjunct2, THEN conjunct1, THEN mp, OF p1] unfolding n
    by (simp add: sx ex)
  have r2: "CDropout_call ?ct x None None (\<lambda>k. 1/4)
              = (Inr \<lparr>shape = [2], elems = [3/2, 0]\<rparr>,
                 ?ct\<lparr>concrete_noise := Some \<lparr>shape = [2], elems = [1/2, 0]\<rparr>\<rparr>, \<lambda>k. 1/4)"
    using train[THEN conjunct2, THEN conjunct2, THEN conjunct2, THEN conjunct1, THEN mp, OF p2]
    by (simp add: concrete_value_def mul sigmoid_def)
  have r2e: "CDropout_call ?ce x None None (\<lambda>k. 1/4)
              = (Inr \<lparr>shape = [2], elems = [3, 1]\<rparr>, ?ce, \<lambda>k. 1/4)"
    using eval[THEN conjunct2, THEN conjunct2, THEN conjunct2, THEN conjunct1, THEN mp, OF p2e]
    by (simp add: mul)
  have r3: "snd (Policy_forward (\<lambda>t. t) ?model ?pol (TorchTensor ?xt) Map.empty 0) = Suc 0"
    using train[THEN conjunct2, THEN conjunct2, THEN conjunct2, THEN conjunct2, THEN mp, OF p3,
        THEN conjunct2]
    by simp
  from r1 r2 r2e r3 show ?thesis unfolding x_def[symmetric] by simp
qed

section \<open>Properties of the moment matching in rollout\<close>

lemma collect_map2_Inr: "collect (map2 (\<lambda>a b. Inr (f a b)) xs ys) = Inr (map2 f xs ys)"
  by (induction xs ys rule: list_induct2') simp_all

lemma bop_row_same:
  assumes "length r = length q"
  shows "bop_row f r q = Inr (map2 f r q)"
  using assms by (simp add: bop_row_def bzip_def collect_map2_Inr)

lemma badd_row_same:
  assumes "length r = length q"
  shows "badd_row r q = Inr (map2 (+) r q)"
  using assms by (simp add: badd_row_def bzip_def collect_map2_Inr)

lemma rectD: "rect n A \<Longrightarrow> r \<in> set A \<Longrightarrow> length r = n"
  by (simp add: rect_def list_all_iff)

lemma sub_vec_rect:
  assumes "rect (length m) A"
  shows "sub_vec A m = Inr (map (\<lambda>r. map2 (-) r m) A)"
  unfolding sub_vec_def
  by (rule collect_cong_Inr) (simp add: bop_row_same rectD[OF assms])

lemma vec_add_rect:
  assumes "rect (length m) A"
  shows "vec_add m A = Inr (map (\<lambda>r. map2 (+) m r) A)"
  unfolding vec_add_def
  by (rule collect_cong_Inr) (simp add: bop_row_same rectD[OF assms])

lemma map2_map_map: "map2 f (map g xs) (map h xs) = map (\<lambda>x. f (g x) (h x)) xs"
  by (induction xs) simp_all

lemma matrix_add_grid:
  "matrix_add (map (\<lambda>i. map (a i) [0..<n]) [0..<n']) (map (\<lambda>i. map (b i) [0..<n]) [0..<n'])
     = Inr (map (\<lambda>i. map (\<lambda>j. a i j + b i j) [0..<n]) [0..<n'])"
proof -
  have "map2 badd_row (map (\<lambda>i. map (a i) [0..<n]) [0..<n']) (map (\<lambda>i. map (b i) [0..<n]) [0..<n'])
        = map (\<lambda>i. Inr (map (\<lambda>j. a i j + b i j) [0..<n])) [0..<n']"
    by (simp add: map2_map_map badd_row_same)
  then show ?thesis
    by (simp add: matrix_add_def bzip_def collect_map_Inr)
qed

lemma sum_list_index: "(\<Sum>k\<leftarrow>[0..<length xs]. f (xs ! k)) = (\<Sum>x\<leftarrow>xs. f x)"
proof -
  have "map (\<lambda>k. f (xs ! k)) [0..<length xs] = map f xs"
    by (rule nth_equalityI) simp_all
  then show ?thesis by simp
qed

lemma moment_match_covariance:
  assumes ne: "A \<noteq> []" and rA: "rect D A" and M: "0 < M"
  shows "moment_match potrf M A z
           = ebind (potrf (covariance M A)) (\<lambda>U.
             ebind (mm z U) (\<lambda>zU. vec_add (column_means A) zU))"
proof -
  define m where "m = column_means A"
  define d where "d = map (\<lambda>r. map2 (-) r m) A"
  define c where "c = (\<lambda>i j. \<Sum>r\<leftarrow>A. (r ! i - m ! i) * (r ! j - m ! j))"
  have wA: "width A = D" using ne rA by (simp add: width_rect)
  have lm: "length m = D" by (simp add: m_def column_means_def wA)
  have m0: "mean0 A = Inr m" using ne by (simp add: m_def mean0_def column_means_def)
  have sv: "sub_vec A m = Inr d" using rA lm by (simp add: d_def sub_vec_rect)
  have dne: "d \<noteq> []" using ne by (simp add: d_def)
  have rd: "rect D d" using rA lm by (auto simp: d_def rect_def list_all_iff)
  have wd: "width d = D" using dne rd by (simp add: width_rect)
  have ent: "(map2 (-) r m) ! j = r ! j - m ! j" if "r \<in> set A" "j < D" for r j
    using that rectD[OF rA that(1)] lm by simp
  have tr: "transpose_m d = map (\<lambda>i. map (\<lambda>r. r ! i) d) [0..<D]"
    unfolding transpose_m_def wd ..
  have rows: "list_all (\<lambda>r. length r = length d) (transpose_m d)"
    by (simp add: tr list_all_iff)
  have cell: "(\<Sum>k\<leftarrow>[0..<length d]. map (\<lambda>r. r ! i) d ! k * d ! k ! j) = c i j"
    if "i < D" "j < D" for i j
  proof -
    have "(\<Sum>k\<leftarrow>[0..<length d]. map (\<lambda>r. r ! i) d ! k * d ! k ! j)
          = (\<Sum>k\<leftarrow>[0..<length d]. (d ! k) ! i * (d ! k) ! j)"
      by (rule arg_cong[where f = sum_list], rule map_cong[OF refl]) simp
    also have "\<dots> = (\<Sum>r\<leftarrow>d. r ! i * r ! j)"
      by (rule sum_list_index[where f = "\<lambda>r. r ! i * r ! j"])
    also have "\<dots> = (\<Sum>r\<leftarrow>A. map2 (-) r m ! i * map2 (-) r m ! j)"
      by (simp add: d_def comp_def)
    also have "\<dots> = c i j"
      unfolding c_def
      by (rule arg_cong[where f = sum_list], rule map_cong[OF refl]) (simp add: ent that)
    finally show ?thesis .
  qed
  have mm1: "mm (transpose_m d) d = Inr (map (\<lambda>i. map (\<lambda>j. c i j) [0..<D]) [0..<D])"
  proof -
    have "map (\<lambda>r. map (\<lambda>j. \<Sum>k\<leftarrow>[0..<length d]. r ! k * d ! k ! j) [0..<width d])
            (transpose_m d)
          = map (\<lambda>i. map (\<lambda>j. \<Sum>k\<leftarrow>[0..<length d]. map (\<lambda>r. r ! i) d ! k * d ! k ! j) [0..<D])
              [0..<D]"
      unfolding tr wd by (simp only: map_map comp_def)
    also have "\<dots> = map (\<lambda>i. map (\<lambda>j. c i j) [0..<D]) [0..<D]"
    proof (rule map_cong[OF refl], rule map_cong[OF refl])
      fix i j assume "i \<in> set [0..<D]" and "j \<in> set [0..<D]"
      then have "i < D" and "j < D" by simp_all
      then show "(\<Sum>k\<leftarrow>[0..<length d]. map (\<lambda>r. r ! i) d ! k * d ! k ! j) = c i j"
        by (rule cell)
    qed
    finally show ?thesis using rows by (simp only: mm_def if_True)
  qed
  have dv: "div_scalar (map (\<lambda>i. map (\<lambda>j. c i j) [0..<D]) [0..<D]) M
            = Inr (map (\<lambda>i. map (\<lambda>j. c i j / real M) [0..<D]) [0..<D])"
    using M by (simp add: div_scalar_def comp_def)
  have ad: "matrix_add (map (\<lambda>i. map (\<lambda>j. c i j / real M) [0..<D]) [0..<D]) (jitter (length m))
            = Inr (covariance M A)"
  proof -
    have "map (\<lambda>i. map (\<lambda>j. c i j / real M + 1 / 10 ^ 6 * (if i = j then 1 else 0)) [0..<D]) [0..<D]
          = covariance M A"
      unfolding covariance_def wA c_def m_def
      by (intro map_cong[OF refl]) simp
    then show ?thesis
      unfolding jitter_def lm
      by (simp only: matrix_add_grid)
  qed
  show ?thesis
    unfolding moment_match_def
    by (simp only: m0 sv mm1 dv ad ebind_Inr m_def[symmetric])
qed

lemma moment_match_redraw:
  assumes lm: "length m = D" and rz: "rect D z" and lenL: "length L = D" and rL: "rect D L"
  shows "ebind (mm z L) (\<lambda>zU. vec_add m zU) = Inr (redraw m z L)"
proof -
  have wL: "width L = D"
  proof (cases L)
    case Nil
    with lenL show ?thesis by (simp add: width_def)
  next
    case (Cons a list)
    then show ?thesis using rL by (simp add: width_def rect_def)
  qed
  define zU where "zU = map (\<lambda>r. map (\<lambda>j. \<Sum>k\<leftarrow>[0..<length L]. r ! k * L ! k ! j) [0..<D]) z"
  have mm2: "mm z L = Inr zU"
    using rz lenL by (simp add: zU_def mm_def wL rect_def)
  have "rect (length m) zU" by (simp add: zU_def rect_def list_all_iff lm)
  then have va: "vec_add m zU = Inr (map (\<lambda>r. map2 (+) m r) zU)"
    by (rule vec_add_rect)
  have mid: "m = map (\<lambda>j. m ! j) [0..<D]"
    using lm by (metis map_nth)
  have row: "map2 (+) m (map g [0..<D]) = map (\<lambda>j. m ! j + g j) [0..<D]" for g
    by (subst mid) (simp only: map2_map_map)
  have fin: "map (\<lambda>r. map2 (+) m r) zU = redraw m z L"
    unfolding redraw_def lm zU_def by (simp only: map_map comp_def row)
  show ?thesis by (simp only: mm2 va fin ebind_Inr)
qed

lemma length_column_means: "length (column_means A) = width A"
  by (simp add: column_means_def)

lemma length_covariance: "length (covariance M A) = width A"
  by (simp add: covariance_def)

lemma moment_match_success:
  assumes run: "moment_match potrf M A z = Inr Y"
    and ne: "A \<noteq> []" and rA: "rect D A" and M: "0 < M" and rz: "rect D z"
    and potrf_shape: "\<And>S U. potrf S = Inr U \<Longrightarrow> length U = length S \<and> rect (length S) U"
  shows "\<exists>L. potrf (covariance M A) = Inr L \<and> Y = redraw (column_means A) z L"
proof -
  have wA: "width A = D" using ne rA by (simp add: width_rect)
  from run obtain L where L: "potrf (covariance M A) = Inr L"
    and tail: "ebind (mm z L) (\<lambda>zU. vec_add (column_means A) zU) = Inr Y"
    unfolding moment_match_covariance[OF ne rA M] by (auto simp: ebind_Inr_iff)
  from potrf_shape[OF L] have "length L = D" and "rect D L"
    by (simp_all add: length_covariance wA)
  from moment_match_redraw[OF _ rz this, of "column_means A"] tail
  have "Y = redraw (column_means A) z L"
    by (simp add: length_column_means wA)
  with L show ?thesis by blast
qed

text \<open>
  Claim C2: take a pass through the body of \<open>rollout\<close> that completes, with \<open>z1\<close>
  and \<open>z3\<close> the noise fetched for \<open>z_mm\<close> and \<open>z_rewards\<close> and \<open>next_states\<close>,
  \<open>rewards\<close> the batches that \<open>forward\<close> returned. With \<open>mm_states\<close> the batch
  handed to the next pass is \<open>m + z1 L\<close>: \<open>m\<close> the column means of \<open>next_states\<close>,
  \<open>L\<close> the factor that \<open>potrf\<close> returns for the covariance of the deviations,
  normalised by the particle count \<open>M\<close>, plus \<open>1e-6\<close> on the diagonal. With
  \<open>mm_rewards\<close> the rewards recorded in the trajectory are replaced in the same way,
  with \<open>z3\<close>. Without the flag the batch is the one \<open>forward\<close> returned. The
  decomposition is assumed to return a matrix of the shape of its argument.
\<close>

theorem rollout_step_moment_matching:
  assumes z1: "get_z_rnd randn (z_mm opts) i (shape_of states) s = (Inr z1, s1)"
    and z2: "get_z_rnd randn (z_states opts) i (shape_of states) s1 = (Inr z2, s2)"
    and z3: "get_z_rnd randn (z_rewards opts) i [length states, 1] s2 = (Inr z3, s3)"
    and pol: "policy states (resample_policy opts) s3 = (actions, s4)"
    and fwd: "forward states actions (resample_model opts) z2 z3 s4 = ((next_states, rewards), s5)"
    and run: "rollout_step potrf randn policy forward opts M i states s = (Inr (entry, passed), s')"
    and M: "0 < M"
    and potrf_shape: "\<And>S U. potrf S = Inr U \<Longrightarrow> length U = length S \<and> rect (length S) U"
    and ns: "next_states \<noteq> []" "rect D next_states" "rect D z1"
    and rw: "rewards \<noteq> []" "rect 1 rewards" "rect 1 z3"
  shows "(if mm_states opts
          then \<exists>L. potrf (covariance M next_states) = Inr L
                 \<and> passed = redraw (column_means next_states) z1 L
          else passed = next_states)
       \<and> (if mm_rewards opts
          then \<exists>L. potrf (covariance M rewards) = Inr L
                 \<and> entry = (states, actions, redraw (column_means rewards) z3 L)
          else entry = (states, actions, rewards))
       \<and> rollout_loop potrf randn policy forward opts M (Suc n) i states trajectory s
           = rollout_loop potrf randn policy forward opts M n (Suc i) passed
               (trajectory @ [entry]) s'"
proof -
  have "rollout_step potrf randn policy forward opts M i states s
        = (ebind (if mm_states opts then moment_match potrf M next_states z1
                  else Inr next_states) (\<lambda>next_states1.
           ebind (if mm_rewards opts then moment_match potrf M rewards z3
                  else Inr rewards) (\<lambda>rewards1.
             Inr ((states, actions, rewards1), next_states1))), s5)"
    unfolding rollout_step_def by (simp only: z1 z2 z3 pol fwd prod.case sum.case)
  with run obtain ns1 rw1 where
    a: "(if mm_states opts then moment_match potrf M next_states z1 else Inr next_states) = Inr ns1"
    and b: "(if mm_rewards opts then moment_match potrf M rewards z3 else Inr rewards) = Inr rw1"
    and e: "entry = (states, actions, rw1)" and p: "passed = ns1"
    by (auto simp: ebind_Inr_iff)
  have A: "if mm_states opts
          then \<exists>L. potrf (covariance M next_states) = Inr L
                 \<and> passed = redraw (column_means next_states) z1 L
          else passed = next_states"
  proof (cases "mm_states opts")
    case True
    with a have "moment_match potrf M next_states z1 = Inr ns1" by simp
    from moment_match_success[OF this ns(1) ns(2) M ns(3) potrf_shape] True p
    show ?thesis by simp
  next
    case False
    with a p show ?thesis by simp
  qed
  have B: "if mm_rewards opts
          then \<exists>L. potrf (covariance M rewards) = Inr L
                 \<and> entry = (states, actions, redraw (column_means rewards) z3 L)
          else entry = (states, actions, rewards)"
  proof (cases "mm_rewards opts")
    case True
    with b have "moment_match potrf M rewards z3 = Inr rw1" by simp
    from moment_match_success[OF this rw(1) rw(2) M rw(3) potrf_shape] True e
    show ?thesis by simp
  next
    case False
    with b e show ?thesis by simp
  qed
  have C: "rollout_loop potrf randn policy forward opts M (Suc n) i states trajectory s
           = rollout_loop potrf randn policy forward opts M n (Suc i) passed
               (trajectory @ [entry]) s'"
    by (simp add: run)
  from A B C show ?thesis by simp
qed


lemma moment_match_example_states:
  "moment_match (\<lambda>S. case S of [[v]] \<Rightarrow> if 0 < v then Inr [[sqrt v]] else Inl RuntimeError
                        | _ \<Rightarrow> Inl RuntimeError) 2 [[1], [3]] [[1], [-1]]
     = Inr [[2 + sqrt (1000001 / 1000000)], [2 - sqrt (1000001 / 1000000)]]"
  by (simp add: moment_match_def mean0_def width_def sub_vec_def bop_row_def bzip_def
      transpose_m_def mm_def div_scalar_def jitter_def matrix_add_def badd_row_def vec_add_def)

lemma moment_match_example_rewards:
  "moment_match (\<lambda>S. case S of [[v]] \<Rightarrow> if 0 < v then Inr [[sqrt v]] else Inl RuntimeError
                        | _ \<Rightarrow> Inl RuntimeError) 2 [[2], [4]] [[1], [-1]]
     = Inr [[3 + sqrt (1000001 / 1000000)], [3 - sqrt (1000001 / 1000000)]]"
  by (simp add: moment_match_def mean0_def width_def sub_vec_def bop_row_def bzip_def
      transpose_m_def mm_def div_scalar_def jitter_def matrix_add_def badd_row_def vec_add_def)

theorem rollout_step_moment_matching_witness:
  "(\<exists>L. (\<lambda>S. case S of [[v]] \<Rightarrow> if 0 < v then Inr [[sqrt v]] else Inl RuntimeError
                | _ \<Rightarrow> Inl RuntimeError) (covariance 2 [[1], [3]]) = Inr L
       \<and> [[2 + sqrt (1000001 / 1000000)], [2 - sqrt (1000001 / 1000000)]]
           = redraw (column_means [[1], [3]]) [[1], [-1]] L)
   \<and> (\<exists>L. (\<lambda>S. case S of [[v]] \<Rightarrow> if 0 < v then Inr [[sqrt v]] else Inl RuntimeError
                | _ \<Rightarrow> Inl RuntimeError) (covariance 2 [[2], [4]]) = Inr L
       \<and> ([[0], [0]], [[0], [0]],
           [[3 + sqrt (1000001 / 1000000)], [3 - sqrt (1000001 / 1000000)]])
           = ([[0], [0]], [[0], [0]], redraw (column_means [[2], [4]]) [[1], [-1]] L))
   \<and> fst (rollout
            (\<lambda>S. case S of [[v]] \<Rightarrow> if 0 < v then Inr [[sqrt v]] else Inl RuntimeError
                  | _ \<Rightarrow> Inl RuntimeError)
            (\<lambda>shp s. ([], s)) (\<lambda>st r s. (st, s))
            (\<lambda>st a r z2 z3 s. (([[1], [3]], [[2], [4]]), s))
            \<lparr>resample_model = False, resample_policy = False, mm_states = True,
             mm_rewards = True, z_mm = Some [[1], [-1], [1]],
             z_states = Some [[0], [0], [0]], z_rewards = Some [[1], [-1], [1]]\<rparr>
            [[0], [0]] 1 ())
       = Inr [([[0], [0]], [[0], [0]],
               [[3 + sqrt (1000001 / 1000000)], [3 - sqrt (1000001 / 1000000)]])]"
proof -
  let ?potrf = "\<lambda>S :: matrix. case S of [[v]] \<Rightarrow> if 0 < v then Inr [[sqrt v]] else Inl RuntimeError
                        | _ \<Rightarrow> Inl RuntimeError"
  let ?randn = "\<lambda>(shp :: nat list) (s :: unit). ([] :: matrix, s)"
  let ?policy = "\<lambda>(st :: matrix) (r :: bool) (s :: unit). (st, s)"
  let ?forward = "\<lambda>(st :: matrix) (a :: matrix) (r :: bool) (z2 :: matrix) (z3 :: matrix) (s :: unit).
                    (([[1], [3]] :: matrix, [[2], [4]] :: matrix), s)"
  let ?opts = "\<lparr>resample_model = False, resample_policy = False, mm_states = True,
             mm_rewards = True, z_mm = Some [[1], [-1], [1]],
             z_states = Some [[0], [0], [0]], z_rewards = Some [[1], [-1], [1]]\<rparr>"
  let ?states = "[[0], [0]] :: matrix"
  let ?q = "sqrt (1000001 / 1000000)"
  let ?entry = "(?states, ?states, [[3 + ?q], [3 - ?q]])"
  let ?passed = "[[2 + ?q], [2 - ?q]]"
  have z1: "get_z_rnd ?randn (z_mm ?opts) 0 (shape_of ?states) () = (Inr [[1], [-1]], ())"
    by (simp add: get_z_rnd_def shape_of_def width_def torch_range_def index_rows_def upt_rec)
  have z2: "get_z_rnd ?randn (z_states ?opts) 0 (shape_of ?states) () = (Inr [[0], [0]], ())"
    by (simp add: get_z_rnd_def shape_of_def width_def torch_range_def index_rows_def upt_rec)
  have z3: "get_z_rnd ?randn (z_rewards ?opts) 0 [length ?states, 1] () = (Inr [[1], [-1]], ())"
    by (simp add: get_z_rnd_def torch_range_def index_rows_def upt_rec)
  have pol: "?policy ?states (resample_policy ?opts) () = (?states, ())" by simp
  have fwd: "?forward ?states ?states (resample_model ?opts) [[0], [0]] [[1], [-1]] ()
               = (([[1], [3]], [[2], [4]]), ())" by simp
  have run: "rollout_step ?potrf ?randn ?policy ?forward ?opts 2 0 ?states ()
               = (Inr (?entry, ?passed), ())"
    unfolding rollout_step_def
    by (simp only: z1 z2 z3 pol fwd prod.case sum.case)
      (simp add: moment_match_example_states moment_match_example_rewards)
  have M: "0 < (2 :: nat)" by simp
  have potrf_shape: "\<And>S U. ?potrf S = Inr U \<Longrightarrow> length U = length S \<and> rect (length S) U"
    by (auto simp: rect_def split: list.splits if_splits)
  have ns: "[[1], [3 :: real]] \<noteq> []" "rect 1 [[1], [3]]" "rect 1 [[1], [-1]]"
    by (simp_all add: rect_def)
  have rw: "[[2], [4 :: real]] \<noteq> []" "rect 1 [[2], [4]]" "rect 1 [[1], [-1]]"
    by (simp_all add: rect_def)
  note inst = rollout_step_moment_matching[OF z1 z2 z3 pol fwd run M potrf_shape ns rw,
      where n = 0 and trajectory = "[]"]
  have "rollout ?potrf ?randn ?policy ?forward ?opts ?states 1 ()
          = rollout_loop ?potrf ?randn ?policy ?forward ?opts 2 (Suc 0) 0 ?states [] ()"
    by (simp add: rollout_def numeral_2_eq_2 del: rollout_loop.simps)
  also have "\<dots> = rollout_loop ?potrf ?randn ?policy ?forward ?opts 2 0 (Suc 0) ?passed
                       ([] @ [?entry]) ()"
    by (rule inst[THEN conjunct2, THEN conjunct2])
  also have "\<dots> = (Inr [?entry], ())" by simp
  finally have loop:
    "fst (rollout ?potrf ?randn ?policy ?forward ?opts ?states 1 ()) = Inr [?entry]"
    by simp
  from inst[THEN conjunct1] inst[THEN conjunct2, THEN conjunct1] loop
  show ?thesis by simp
qed


end
